theory Spec2Isabelle
  imports Complex_Main "HOL-Library.Signed_Division"
begin

section \<open>Platypus: the fleet energy-aware control loop\<close>

text \<open>
  A shallow embedding of the Go packages \<^verbatim>\<open>models\<close>, \<^verbatim>\<open>metrics\<close>, \<^verbatim>\<open>scaling\<close> and
  \<^verbatim>\<open>migration\<close>.  In the scoring engine Go's \<^verbatim>\<open>float64\<close> is read as a real number,
  without rounding.  Where the source divides by a value that can be zero, the
  non-finite results of IEEE arithmetic are written out (type \<open>f64\<close> below), and
  where it cuts a quotient down to an integer (\<^verbatim>\<open>calculatePriority\<close>) each operation is
  rounded to the nearest \<^verbatim>\<open>float64\<close>.
  Points in time and durations are integers counting nanoseconds.
\<close>

subsection \<open>internal/models/types.go\<close>

record MetricData =
  ServerID :: string
  Timestamp :: int
  PowerUsage :: real
  CarbonFootprint :: real
  CPUUsage :: real
  MemoryUsage :: real

record Server =
  ID :: string
  Provider :: string
  Region :: string
  InstanceType :: string
  EcoScore :: real

text \<open>The fields of \<^verbatim>\<open>Container\<close> carry the prefix \<open>C\<close>, since \<^verbatim>\<open>ID\<close>, \<^verbatim>\<open>ServerID\<close> and
  \<^verbatim>\<open>PowerUsage\<close> are already fields of the records above.\<close>

record Container =
  CID :: string
  CServerID :: string
  CServiceName :: string
  CEcoTags :: "string list"
  CPowerUsage :: real

subsection \<open>internal/metrics/analyzer.go\<close>

text \<open>\<^verbatim>\<open>for _, m := range metrics { sum += m.PowerUsage }\<close>: the accumulating loops
  are left folds.  The three component scores divide by the number of samples;
  \<^verbatim>\<open>calculateEfficiencyScore\<close> calls them after it has found the slice non-empty, and
  nothing below uses their value on an empty one.\<close>

definition calculateMean :: "MetricData list \<Rightarrow> real" where
  "calculateMean metrics =
     foldl (\<lambda>sum m. sum + PowerUsage m) 0 metrics / real (length metrics)"

definition calculatePowerScore :: "MetricData list \<Rightarrow> real" where
  "calculatePowerScore metrics = max 0 (1 - calculateMean metrics / 1000)"

definition calculateUtilizationScore :: "MetricData list \<Rightarrow> real" where
  "calculateUtilizationScore metrics =
     foldl (\<lambda>totalUtil m. totalUtil + (1 - \<bar>0.7 - CPUUsage m / 100\<bar>)) 0 metrics
       / real (length metrics)"

definition calculateCarbonScore :: "MetricData list \<Rightarrow> real" where
  "calculateCarbonScore metrics =
     (let avgCarbon = foldl (\<lambda>totalCarbon m. totalCarbon + CarbonFootprint m) 0 metrics
                        / real (length metrics)
      in max 0 (1 - avgCarbon))"

definition calculateEfficiencyScore :: "MetricData list \<Rightarrow> real" where
  "calculateEfficiencyScore metrics =
     (if length metrics = 0 then 0
      else (calculatePowerScore metrics * 0.4
            + calculateUtilizationScore metrics * 0.3
            + calculateCarbonScore metrics * 0.3) * 100)"

text \<open>Modelled from the spec: \<^verbatim>\<open>Analyzer.CalculateEcoScore\<close> is called by the autoscaler,
  the planner, the tag manager and the API, but its body is not among the sources.  The
  spec names the composite efficiency score the eco-score and requires the value 0 on an
  empty sample set, which is what \<^verbatim>\<open>calculateEfficiencyScore\<close> computes.\<close>

definition CalculateEcoScore :: "MetricData list \<Rightarrow> real" where
  "CalculateEcoScore metrics = calculateEfficiencyScore metrics"

text \<open>Sample constructors used by the concrete evaluations below.\<close>

definition sample :: "string \<Rightarrow> int \<Rightarrow> real \<Rightarrow> real \<Rightarrow> real \<Rightarrow> MetricData" where
  "sample sid ts cpu watts co2 =
     \<lparr>ServerID = sid, Timestamp = ts, PowerUsage = watts, CarbonFootprint = co2,
      CPUUsage = cpu, MemoryUsage = 0\<rparr>"

subsection \<open>Errors and time\<close>

text \<open>A Go \<^verbatim>\<open>error\<close> built by \<^verbatim>\<open>fmt.Errorf\<close>, or handed up by a collaborator, is its
  message.  A function returning \<^verbatim>\<open>error\<close> returns \<open>error option\<close> (\<open>None\<close> is \<^verbatim>\<open>nil\<close>);
  one returning \<^verbatim>\<open>(T, error)\<close> returns \<open>error + T\<close>.\<close>

datatype error = Errorf string

text \<open>\<^verbatim>\<open>time.Unix(sec, nsec)\<close> and \<^verbatim>\<open>Time.After\<close>, with a \<^verbatim>\<open>time.Time\<close> read as the number
  of nanoseconds since the epoch.\<close>

definition Unix :: "int \<Rightarrow> int \<Rightarrow> int" where
  "Unix sec nsec = sec * 1000000000 + nsec"

definition After :: "int \<Rightarrow> int \<Rightarrow> bool" where
  "After t u = (u < t)"

subsection \<open>The collector (package metrics)\<close>

record CollectorConfig =
  RetentionPeriod :: int
  CollectionInterval :: int
  BatchSize :: int
  BufferSize :: int

record ServerMetrics =
  Data :: "MetricData list"
  LastUpdate :: int

text \<open>\<^verbatim>\<open>MetricBatch\<close>; its fields carry the prefix \<open>B\<close>.\<close>

record MetricBatch =
  BServerID :: string
  BMetrics :: "MetricData list"
  BTimestamp :: int

text \<open>
  Where the goroutine \<^verbatim>\<open>processBuffer\<close>, the only receiver of the channel, stands:
  parked in its receive \<^verbatim>\<open><-c.buffer\<close> on an empty channel, holding a batch it has
  received and not yet incorporated, or away from the receive (not started, or about
  to come back to it).
\<close>

datatype Consumer = Parked | Holding MetricBatch | Away

text \<open>
  The collector's state.  The map \<^verbatim>\<open>metrics\<close> is a partial function.  The channel
  \<^verbatim>\<open>buffer\<close>, made with capacity \<^verbatim>\<open>BufferSize\<close>, is the FIFO queue of the batches it
  holds, oldest first, together with the state of its receiver.  The Prometheus gauges
  are write-only and left out.
\<close>

record Collector =
  config :: CollectorConfig
  metrics :: "string \<rightharpoonup> ServerMetrics"
  buffer :: "MetricBatch list"
  consumer :: Consumer

text \<open>The zero value of \<^verbatim>\<open>time.Time\<close> (1 January of year 1, UTC) in nanoseconds since
  the epoch; \<^verbatim>\<open>processBatch\<close> creates a series with it before setting \<^verbatim>\<open>LastUpdate\<close>.\<close>

definition zeroTime :: int where
  "zeroTime = - 62135596800 * 1000000000"

definition processBatch :: "Collector \<Rightarrow> MetricBatch \<Rightarrow> Collector" where
  "processBatch c batch =
     (let sm = (case metrics c (BServerID batch) of
                  None \<Rightarrow> \<lparr>Data = [], LastUpdate = zeroTime\<rparr>
                | Some sm \<Rightarrow> sm)
      in c\<lparr>metrics := (metrics c)(BServerID batch \<mapsto>
              sm\<lparr>Data := Data sm @ BMetrics batch, LastUpdate := BTimestamp batch\<rparr>)\<rparr>)"

text \<open>
  One step of \<^verbatim>\<open>processBuffer\<close>: a batch it holds is incorporated by \<^verbatim>\<open>processBatch\<close>;
  otherwise it receives the oldest batch of the queue, or parks when the queue is empty.
\<close>

definition processBuffer :: "Collector \<Rightarrow> Collector" where
  "processBuffer c =
     (case consumer c of
        Holding batch \<Rightarrow> (processBatch c batch)\<lparr>consumer := Away\<rparr>
      | _ \<Rightarrow>
          (case buffer c of
             [] \<Rightarrow> c\<lparr>consumer := Parked\<rparr>
           | batch # rest \<Rightarrow> c\<lparr>buffer := rest, consumer := Holding batch\<rparr>))"

text \<open>
  A send on the channel, \<^verbatim>\<open>c.buffer <- batch\<close>, as the Go runtime decides it: a parked
  receiver is handed the value directly; failing that the value is queued if the buffer
  has room; failing that the sender has to wait.
\<close>

datatype 'a attempt = Proceeds 'a | Waits

definition chanSend :: "Collector \<Rightarrow> MetricBatch \<Rightarrow> Collector attempt" where
  "chanSend c batch =
     (case consumer c of
        Parked \<Rightarrow> Proceeds (c\<lparr>consumer := Holding batch\<rparr>)
      | _ \<Rightarrow>
          (if int (length (buffer c)) < BufferSize (config c)
           then Proceeds (c\<lparr>buffer := buffer c @ [batch]\<rparr>)
           else Waits))"

text \<open>
  \<^verbatim>\<open>select { case c.buffer <- batch: return nil; default: return fmt.Errorf(...) }\<close>:
  the send is taken when it can proceed, the \<^verbatim>\<open>default\<close> branch when it would have to
  wait.  \<open>now\<close> is the value of \<^verbatim>\<open>time.Now()\<close>.
\<close>

definition CollectMetrics ::
  "int \<Rightarrow> Collector \<Rightarrow> string \<Rightarrow> MetricData \<Rightarrow> error option \<times> Collector" where
  "CollectMetrics now c serverID data =
     (let batch = \<lparr>BServerID = serverID, BMetrics = [data], BTimestamp = now\<rparr>
      in case chanSend c batch of
           Proceeds c' \<Rightarrow> (None, c')
         | Waits \<Rightarrow> (Some (Errorf ''metric buffer is full''), c))"

definition GetMetrics :: "Collector \<Rightarrow> string \<Rightarrow> error + MetricData list" where
  "GetMetrics c serverID =
     (case metrics c serverID of
        Some sm \<Rightarrow> Inr (Data sm)
      | None \<Rightarrow> Inl (Errorf (''no metrics found for server: '' @ serverID)))"

text \<open>One tick of \<^verbatim>\<open>cleanupOldMetrics\<close>: the body run under the lock when the ticker
  fires at time \<open>now\<close>.  Every series of the map is rebuilt from the samples that lie
  after the cutoff, in the order of the old series.\<close>

fun filterAfter :: "int \<Rightarrow> MetricData list \<Rightarrow> MetricData list" where
  "filterAfter cutoff [] = []"
| "filterAfter cutoff (metric # rest) =
     (if After (Unix (Timestamp metric) 0) cutoff
      then metric # filterAfter cutoff rest
      else filterAfter cutoff rest)"

definition cleanupOldMetrics :: "int \<Rightarrow> Collector \<Rightarrow> Collector" where
  "cleanupOldMetrics now c =
     (let cutoff = now - RetentionPeriod (config c)
      in c\<lparr>metrics := (\<lambda>serverID.
              case metrics c serverID of
                None \<Rightarrow> None
              | Some serverMetrics \<Rightarrow>
                  Some (serverMetrics\<lparr>Data := filterAfter cutoff (Data serverMetrics)\<rparr>))\<rparr>)"

text \<open>A collector with given series, an empty channel and its consumer away from the
  receive, for the concrete evaluations.\<close>

definition collectorOf :: "int \<Rightarrow> int \<Rightarrow> (string \<rightharpoonup> ServerMetrics) \<Rightarrow> Collector" where
  "collectorOf retention bufsize m =
     \<lparr>config = \<lparr>RetentionPeriod = retention, CollectionInterval = 60000000000,
                 BatchSize = 100, BufferSize = bufsize\<rparr>,
      metrics = m, buffer = [], consumer = Away\<rparr>"

subsection \<open>Collaborators (pkg/cloud, container enumeration)\<close>

text \<open>
  The methods of the interface \<^verbatim>\<open>cloud.CloudProvider\<close> that the control loops call.  A
  provider is taken to answer a call from its arguments alone.
\<close>

record CloudProvider =
  GetInstances :: "error + Server list"
  MigrateContainer :: "string \<Rightarrow> string \<Rightarrow> string \<Rightarrow> error option"

text \<open>\<^verbatim>\<open>getServerContainers\<close>, as written in both \<^verbatim>\<open>autoscaler.go\<close> and \<^verbatim>\<open>planner.go\<close>: a
  placeholder that reports no containers and no error.\<close>

definition getServerContainers :: "string \<Rightarrow> error + Container list" where
  "getServerContainers serverID = Inr []"

text \<open>
  The passes below take the enumeration as their first argument \<open>enum\<close>, so that what is
  proved of them holds for the placeholder and for any implementation put in its place.
  They take \<^verbatim>\<open>analyzer.CalculateEcoScore\<close> as the argument \<open>ecoScore\<close>.
\<close>

type_synonym Enumeration = "string \<Rightarrow> error + Container list"

type_synonym Scoring = "MetricData list \<Rightarrow> real"

text \<open>One call of \<^verbatim>\<open>MigrateContainer\<close>: container, source and target identifiers.\<close>

type_synonym Relocation = "string \<times> string \<times> string"

subsection \<open>internal/scaling/autoscaler.go\<close>

record AutoscalerConfig =
  CPUThresholdHigh :: real
  CPUThresholdLow :: real
  PowerThresholdHigh :: real
  ScaleUpCooldown :: int
  ScaleDownCooldown :: int
  EvaluationInterval :: int

text \<open>The autoscaler's own state: its configuration (field \<^verbatim>\<open>config\<close>) and the two
  cooldown timestamps.\<close>

record Autoscaler =
  aconfig :: AutoscalerConfig
  lastScaleUp :: int
  lastScaleDown :: int

text \<open>\<^verbatim>\<open>time.Since(t)\<close> is \<open>now - t\<close>.\<close>

definition shouldScaleUp :: "int \<Rightarrow> Autoscaler \<Rightarrow> MetricData \<Rightarrow> bool" where
  "shouldScaleUp now a metric =
     (if now - lastScaleUp a < ScaleUpCooldown (aconfig a) then False
      else CPUUsage metric > CPUThresholdHigh (aconfig a)
           \<or> PowerUsage metric > PowerThresholdHigh (aconfig a))"

definition shouldScaleDown :: "int \<Rightarrow> Autoscaler \<Rightarrow> MetricData \<Rightarrow> bool" where
  "shouldScaleDown now a metric =
     (if now - lastScaleDown a < ScaleDownCooldown (aconfig a) then False
      else CPUUsage metric < CPUThresholdLow (aconfig a))"

text \<open>The zero value \<^verbatim>\<open>models.Server{}\<close>.\<close>

definition zeroServer :: Server where
  "zeroServer = \<lparr>ID = [], Provider = [], Region = [], InstanceType = [], EcoScore = 0\<rparr>"

text \<open>The loop of \<^verbatim>\<open>findEnergyEfficientServer\<close> over the servers still to visit, with the
  variables \<^verbatim>\<open>bestServer\<close> and \<^verbatim>\<open>bestScore\<close>.\<close>

fun bestServerLoop ::
  "Collector \<Rightarrow> Scoring \<Rightarrow> Server list \<Rightarrow> Server \<Rightarrow> real \<Rightarrow> Server \<times> real" where
  "bestServerLoop c ecoScore [] bestServer bestScore = (bestServer, bestScore)"
| "bestServerLoop c ecoScore (server # rest) bestServer bestScore =
     (case GetMetrics c (ID server) of
        Inl err \<Rightarrow> bestServerLoop c ecoScore rest bestServer bestScore
      | Inr ms \<Rightarrow>
          (let score = ecoScore ms
           in if score > bestScore then bestServerLoop c ecoScore rest server score
              else bestServerLoop c ecoScore rest bestServer bestScore))"

definition findEnergyEfficientServer ::
  "CloudProvider \<Rightarrow> Collector \<Rightarrow> Scoring \<Rightarrow> error + Server" where
  "findEnergyEfficientServer p c ecoScore =
     (case GetInstances p of
        Inl err \<Rightarrow> Inl err
      | Inr servers \<Rightarrow> Inr (fst (bestServerLoop c ecoScore servers zeroServer 0)))"

text \<open>The relocation loop of \<^verbatim>\<open>scaleUp\<close>: a failed relocation is skipped
  (\<^verbatim>\<open>continue\<close>).  The result is the list of calls made, in order.\<close>

fun migrateEach :: "CloudProvider \<Rightarrow> string \<Rightarrow> string \<Rightarrow> Container list \<Rightarrow> Relocation list" where
  "migrateEach p sourceID targetID [] = []"
| "migrateEach p sourceID targetID (container # rest) =
     (case MigrateContainer p (CID container) sourceID targetID of
        Some err \<Rightarrow> (CID container, sourceID, targetID) # migrateEach p sourceID targetID rest
      | None \<Rightarrow> (CID container, sourceID, targetID) # migrateEach p sourceID targetID rest)"

text \<open>The relocation loop of \<^verbatim>\<open>scaleDown\<close>: the first failed relocation is returned.\<close>

fun migrateAll ::
  "CloudProvider \<Rightarrow> string \<Rightarrow> string \<Rightarrow> Container list \<Rightarrow> error option \<times> Relocation list" where
  "migrateAll p sourceID targetID [] = (None, [])"
| "migrateAll p sourceID targetID (container # rest) =
     (case MigrateContainer p (CID container) sourceID targetID of
        Some err \<Rightarrow> (Some err, [(CID container, sourceID, targetID)])
      | None \<Rightarrow>
          (case migrateAll p sourceID targetID rest of
             (r, calls) \<Rightarrow> (r, (CID container, sourceID, targetID) # calls)))"

text \<open>
  \<^verbatim>\<open>scaleUp\<close> and \<^verbatim>\<open>scaleDown\<close> return the error, the autoscaler's state and the
  relocations requested from the provider.  \<open>now\<close> is the value of \<^verbatim>\<open>time.Now()\<close> at the
  end of the pass.
\<close>

definition scaleUp ::
  "Enumeration \<Rightarrow> CloudProvider \<Rightarrow> Collector \<Rightarrow> Scoring \<Rightarrow> int \<Rightarrow> Autoscaler \<Rightarrow> Server
     \<Rightarrow> error option \<times> Autoscaler \<times> Relocation list" where
  "scaleUp enum p c ecoScore now a server =
     (case findEnergyEfficientServer p c ecoScore of
        Inl err \<Rightarrow> (Some err, a, [])
      | Inr targetServer \<Rightarrow>
          (case enum (ID server) of
             Inl err \<Rightarrow> (Some err, a, [])
           | Inr containers \<Rightarrow>
               (None, a\<lparr>lastScaleUp := now\<rparr>,
                migrateEach p (ID server) (ID targetServer) containers)))"

text \<open>The source computes the score that gates the pass from an empty slice:
  \<^verbatim>\<open>ecoScore := a.analyzer.CalculateEcoScore([]models.MetricData{})\<close>.\<close>

definition scaleDown ::
  "Enumeration \<Rightarrow> CloudProvider \<Rightarrow> Collector \<Rightarrow> Scoring \<Rightarrow> int \<Rightarrow> Autoscaler \<Rightarrow> Server
     \<Rightarrow> error option \<times> Autoscaler \<times> Relocation list" where
  "scaleDown enum p c ecoScore now a server =
     (if ecoScore [] > 80 then (None, a, [])
      else
        (case findEnergyEfficientServer p c ecoScore of
           Inl err \<Rightarrow> (Some err, a, [])
         | Inr targetServer \<Rightarrow>
             (case enum (ID server) of
                Inl err \<Rightarrow> (Some err, a, [])
              | Inr containers \<Rightarrow>
                  (case migrateAll p (ID server) (ID targetServer) containers of
                     (Some err, calls) \<Rightarrow> (Some err, a, calls)
                   | (None, calls) \<Rightarrow> (None, a\<lparr>lastScaleDown := now\<rparr>, calls)))))"

text \<open>Fixtures for the concrete evaluations: servers, a container, collaborators and an
  autoscaler with the thresholds of \<^verbatim>\<open>cmd/server/main.go\<close>.\<close>

definition serverOf :: "string \<Rightarrow> string \<Rightarrow> Server" where
  "serverOf sid region =
     \<lparr>ID = sid, Provider = ''aws'', Region = region, InstanceType = ''t3.micro'', EcoScore = 0\<rparr>"

definition containerOf :: "string \<Rightarrow> string \<Rightarrow> real \<Rightarrow> Container" where
  "containerOf cid sid watts =
     \<lparr>CID = cid, CServerID = sid, CServiceName = ''svc'', CEcoTags = [], CPowerUsage = watts\<rparr>"

definition providerOf :: "Server list \<Rightarrow> CloudProvider" where
  "providerOf servers = \<lparr>GetInstances = Inr servers, MigrateContainer = (\<lambda>cid src tgt. None)\<rparr>"

definition failingProvider :: CloudProvider where
  "failingProvider =
     \<lparr>GetInstances = Inl (Errorf ''provider unavailable''),
      MigrateContainer = (\<lambda>cid src tgt. Some (Errorf ''provider unavailable''))\<rparr>"

definition oneContainer :: Enumeration where
  "oneContainer serverID = Inr [containerOf ''c1'' serverID 200]"

definition failingEnumeration :: Enumeration where
  "failingEnumeration serverID = Inl (Errorf ''orchestrator unavailable'')"

definition seriesOf :: "MetricData list \<Rightarrow> ServerMetrics" where
  "seriesOf ms = \<lparr>Data = ms, LastUpdate = 0\<rparr>"

definition autoscalerOf :: "int \<Rightarrow> int \<Rightarrow> Autoscaler" where
  "autoscalerOf up down =
     \<lparr>aconfig = \<lparr>CPUThresholdHigh = 80, CPUThresholdLow = 20, PowerThresholdHigh = 1000,
                 ScaleUpCooldown = 300000000000, ScaleDownCooldown = 900000000000,
                 EvaluationInterval = 60000000000\<rparr>,
      lastScaleUp = up, lastScaleDown = down\<rparr>"

subsection \<open>Floating-point values that need not be finite\<close>

text \<open>
  In Go a \<^verbatim>\<open>float64\<close> division by zero does not panic: it yields an infinity or NaN,
  and these propagate through later arithmetic and make comparisons false.  The planner
  divides by an eco-score and by \<^verbatim>\<open>MinPowerSaving\<close>, so its arithmetic is carried out on
  \<open>f64\<close>: a finite value (a real) or one of the three non-finite values.  The
  operations give the exact IEEE 754 result, to which \<open>roundF\<close> below applies the
  rounding; the sign of a zero is not tracked, a zero divisor counts as \<open>+0\<close>.
\<close>

datatype f64 = Fin real | PInf | NInf | NaN

fun fdiv :: "f64 \<Rightarrow> f64 \<Rightarrow> f64" where
  "fdiv (Fin a) (Fin b) =
     (if b = 0 then (if a = 0 then NaN else if 0 < a then PInf else NInf) else Fin (a / b))"
| "fdiv (Fin a) PInf = Fin 0"
| "fdiv (Fin a) NInf = Fin 0"
| "fdiv PInf (Fin b) = (if 0 \<le> b then PInf else NInf)"
| "fdiv NInf (Fin b) = (if 0 \<le> b then NInf else PInf)"
| "fdiv _ _ = NaN"

fun fmul :: "f64 \<Rightarrow> f64 \<Rightarrow> f64" where
  "fmul (Fin a) (Fin b) = Fin (a * b)"
| "fmul (Fin a) PInf = (if a = 0 then NaN else if 0 < a then PInf else NInf)"
| "fmul (Fin a) NInf = (if a = 0 then NaN else if 0 < a then NInf else PInf)"
| "fmul PInf (Fin b) = (if b = 0 then NaN else if 0 < b then PInf else NInf)"
| "fmul NInf (Fin b) = (if b = 0 then NaN else if 0 < b then NInf else PInf)"
| "fmul PInf PInf = PInf"
| "fmul NInf NInf = PInf"
| "fmul PInf NInf = NInf"
| "fmul NInf PInf = NInf"
| "fmul _ _ = NaN"

fun fsub :: "f64 \<Rightarrow> f64 \<Rightarrow> f64" where
  "fsub (Fin a) (Fin b) = Fin (a - b)"
| "fsub (Fin a) PInf = NInf"
| "fsub (Fin a) NInf = PInf"
| "fsub PInf (Fin b) = PInf"
| "fsub NInf (Fin b) = NInf"
| "fsub PInf NInf = PInf"
| "fsub NInf PInf = NInf"
| "fsub _ _ = NaN"

text \<open>\<open>flt x y\<close> is \<^verbatim>\<open>x < y\<close> and \<open>fgt x y\<close> is \<^verbatim>\<open>x > y\<close>; both are false when an operand
  is NaN.\<close>

fun flt :: "f64 \<Rightarrow> f64 \<Rightarrow> bool" where
  "flt (Fin a) (Fin b) = (a < b)"
| "flt (Fin a) PInf = True"
| "flt NInf (Fin b) = True"
| "flt NInf PInf = True"
| "flt _ _ = False"

definition fgt :: "f64 \<Rightarrow> f64 \<Rightarrow> bool" where
  "fgt x y = flt y x"

text \<open>
  Rounding to the nearest \<^verbatim>\<open>float64\<close>, ties to the even significand.  \<open>pow2 e\<close> is
  \<open>2\<^sup>e\<close>.  A \<^verbatim>\<open>float64\<close> is an integer below \<open>2\<^sup>5\<^sup>3\<close> in magnitude times \<open>2\<^sup>e\<close> with
  \<open>-1074 \<le> e \<le> 971\<close>: \<open>ulpExp x\<close> is the least such \<open>e\<close> that leaves \<open>\<bar>x\<bar>\<close> below
  \<open>2\<^sup>5\<^sup>3 \<times> 2\<^sup>e\<close>, the exponent of the spacing of the values around \<open>x\<close>; there is none
  from \<open>2\<^sup>1\<^sup>0\<^sup>2\<^sup>4\<close> on.  \<open>round64 x\<close> is the multiple of that spacing nearest to \<open>x\<close>, or
  an infinity when that reaches \<open>2\<^sup>1\<^sup>0\<^sup>2\<^sup>4\<close>.
\<close>

definition pow2 :: "int \<Rightarrow> real" where
  "pow2 e = (if 0 \<le> e then 2 ^ nat e else 1 / 2 ^ nat (- e))"

definition roundEven :: "real \<Rightarrow> int" where
  "roundEven r =
     (let f = \<lfloor>r\<rfloor>; d = r - of_int f
      in if d < 1 / 2 then f
         else if 1 / 2 < d then f + 1
         else if even f then f else f + 1)"

definition ulpExp :: "real \<Rightarrow> int option" where
  "ulpExp x = List.find (\<lambda>e. \<bar>x\<bar> < pow2 (e + 53)) [- 1074 .. 971]"

definition round64 :: "real \<Rightarrow> f64" where
  "round64 x =
     (case ulpExp x of
        None \<Rightarrow> (if 0 < x then PInf else NInf)
      | Some e \<Rightarrow>
          (let y = of_int (roundEven (x / pow2 e)) * pow2 e
           in if pow2 1024 \<le> \<bar>y\<bar> then (if 0 < x then PInf else NInf) else Fin y))"

text \<open>The result of an operation as Go stores it: a finite result is rounded.\<close>

definition roundF :: "f64 \<Rightarrow> f64" where
  "roundF v = (case v of Fin x \<Rightarrow> round64 x | PInf \<Rightarrow> PInf | NInf \<Rightarrow> NInf | NaN \<Rightarrow> NaN)"

text \<open>
  The conversion \<^verbatim>\<open>int(x)\<close> of a \<^verbatim>\<open>float64\<close>: the fraction is discarded (truncation
  towards zero).  \<^verbatim>\<open>int\<close> is taken to be 64 bits wide.  When the value does not fit, or
  is not finite, the conversion succeeds with a result that depends on the
  implementation: the argument \<open>impl\<close> supplies it.  \<open>wrap64\<close> is two's-complement
  wrap-around.
\<close>

definition truncR :: "real \<Rightarrow> int" where
  "truncR r = (if 0 \<le> r then \<lfloor>r\<rfloor> else \<lceil>r\<rceil>)"

definition wrap64 :: "int \<Rightarrow> int" where
  "wrap64 v = (v + 9223372036854775808) mod 18446744073709551616 - 9223372036854775808"

type_synonym Conversion = "f64 \<Rightarrow> int"

definition intOfFloat :: "Conversion \<Rightarrow> f64 \<Rightarrow> int" where
  "intOfFloat impl x =
     (case x of
        Fin r \<Rightarrow>
          if - 9223372036854775808 \<le> truncR r \<and> truncR r < 9223372036854775808
          then truncR r else wrap64 (impl x)
      | _ \<Rightarrow> wrap64 (impl x))"

text \<open>The result of the x86-64 conversion instruction for every value that does not
  fit: the smallest 64-bit integer.\<close>

definition amd64 :: Conversion where
  "amd64 x = - 9223372036854775808"

subsection \<open>internal/migration/planner.go\<close>

record MigrationPlan =
  ContainerID :: string
  SourceServerID :: string
  TargetServerID :: string
  Priority :: int
  PowerSaving :: f64
  DowntimeEstimate :: int

record PlannerConfig =
  MinPowerSaving :: real
  MaxDowntime :: int
  PlanningInterval :: int
  ConcurrentMigrations :: int

text \<open>
  The planner's own state: its configuration (field \<^verbatim>\<open>config\<close>), the registry
  \<^verbatim>\<open>activePlans\<close> and whether its mutex \<^verbatim>\<open>mu\<close> is held.
\<close>

record Planner =
  pconfig :: PlannerConfig
  activePlans :: "string \<rightharpoonup> MigrationPlan"
  muLocked :: bool

definition Second :: int where
  "Second = 1000000000"

definition Minute :: int where
  "Minute = 60 * Second"

definition getServerEcoScore :: "Collector \<Rightarrow> Scoring \<Rightarrow> string \<Rightarrow> real" where
  "getServerEcoScore c ecoScore serverID =
     (case GetMetrics c serverID of Inl err \<Rightarrow> 0 | Inr ms \<Rightarrow> ecoScore ms)"

definition estimatePowerSaving ::
  "Collector \<Rightarrow> Scoring \<Rightarrow> Container \<Rightarrow> Server \<Rightarrow> Server \<Rightarrow> f64" where
  "estimatePowerSaving c ecoScore container sourceServer targetServer =
     (let sourcePower = Fin (CPowerUsage container);
          targetPower = fmul sourcePower
            (fdiv (Fin (getServerEcoScore c ecoScore (ID targetServer)))
                  (Fin (getServerEcoScore c ecoScore (ID sourceServer))))
      in fsub sourcePower targetPower)"

definition estimateDowntime :: "Container \<Rightarrow> Server \<Rightarrow> Server \<Rightarrow> int" where
  "estimateDowntime container sourceServer targetServer =
     (let baseTime = 30 * Second
      in if Region sourceServer \<noteq> Region targetServer then baseTime + 1 * Minute
         else baseTime)"

text \<open>
  \<^verbatim>\<open>int((powerSaving / p.config.MinPowerSaving) * 10)\<close>: the quotient is rounded to a
  \<^verbatim>\<open>float64\<close>, its product with 10 is rounded again, and the conversion discards the
  fraction of that value.  \<^verbatim>\<open>MaxDowntime/2\<close> divides a \<^verbatim>\<open>time.Duration\<close>, an integer: Go's
  quotient, which truncates towards zero, is \<open>sdiv\<close>.  \<^verbatim>\<open>priority -= 2\<close> is integer
  arithmetic and wraps.
\<close>

definition calculatePriority :: "PlannerConfig \<Rightarrow> Conversion \<Rightarrow> f64 \<Rightarrow> int \<Rightarrow> int" where
  "calculatePriority cfg impl powerSaving downtime =
     (let priority = intOfFloat impl
            (roundF (fmul (roundF (fdiv powerSaving (Fin (MinPowerSaving cfg)))) (Fin 10)));
          priority = (if downtime > MaxDowntime cfg sdiv 2 then wrap64 (priority - 2)
                      else priority);
          priority = (if priority < 1 then 1 else priority);
          priority = (if priority > 10 then 10 else priority)
      in priority)"

text \<open>The loop of \<^verbatim>\<open>findBestMigrationPlan\<close> over the candidate targets still to visit,
  with the variables \<^verbatim>\<open>bestPlan\<close> and \<^verbatim>\<open>maxPowerSaving\<close>.\<close>

fun bestPlanLoop ::
  "PlannerConfig \<Rightarrow> Conversion \<Rightarrow> Collector \<Rightarrow> Scoring \<Rightarrow> Container \<Rightarrow> Server \<Rightarrow> Server list
     \<Rightarrow> MigrationPlan option \<Rightarrow> f64 \<Rightarrow> MigrationPlan option" where
  "bestPlanLoop cfg impl c ecoScore container sourceServer [] bestPlan maxPowerSaving = bestPlan"
| "bestPlanLoop cfg impl c ecoScore container sourceServer (targetServer # rest) bestPlan
       maxPowerSaving =
     (if ID targetServer = ID sourceServer
      then bestPlanLoop cfg impl c ecoScore container sourceServer rest bestPlan maxPowerSaving
      else
        (let powerSaving = estimatePowerSaving c ecoScore container sourceServer targetServer
         in if flt powerSaving (Fin (MinPowerSaving cfg))
            then bestPlanLoop cfg impl c ecoScore container sourceServer rest bestPlan
                   maxPowerSaving
            else
              (let downtime = estimateDowntime container sourceServer targetServer
               in if downtime > MaxDowntime cfg
                  then bestPlanLoop cfg impl c ecoScore container sourceServer rest bestPlan
                         maxPowerSaving
                  else if fgt powerSaving maxPowerSaving
                  then bestPlanLoop cfg impl c ecoScore container sourceServer rest
                         (Some \<lparr>ContainerID = CID container,
                                 SourceServerID = ID sourceServer,
                                 TargetServerID = ID targetServer,
                                 Priority = calculatePriority cfg impl powerSaving downtime,
                                 PowerSaving = powerSaving,
                                 DowntimeEstimate = downtime\<rparr>)
                         powerSaving
                  else bestPlanLoop cfg impl c ecoScore container sourceServer rest bestPlan
                         maxPowerSaving)))"

definition findBestMigrationPlan ::
  "PlannerConfig \<Rightarrow> Conversion \<Rightarrow> Collector \<Rightarrow> Scoring \<Rightarrow> Container \<Rightarrow> Server \<Rightarrow> Server list
     \<Rightarrow> MigrationPlan option" where
  "findBestMigrationPlan cfg impl c ecoScore container sourceServer targetServers =
     bestPlanLoop cfg impl c ecoScore container sourceServer targetServers None (Fin 0)"

text \<open>
  \<^verbatim>\<open>sort.Slice\<close> with a comparison \<^verbatim>\<open>key(i) > key(j)\<close> orders by decreasing key.  It is
  not stable; \<open>sortDesc\<close> is the stable sort, one of the orders \<^verbatim>\<open>sort.Slice\<close> may
  produce.  The results about the loops below are proved for every order.
\<close>

fun insertDesc :: "('a \<Rightarrow> 'k::linorder) \<Rightarrow> 'a \<Rightarrow> 'a list \<Rightarrow> 'a list" where
  "insertDesc key x [] = [x]"
| "insertDesc key x (y # ys) =
     (if key y > key x then y # insertDesc key x ys else x # y # ys)"

definition sortDesc :: "('a \<Rightarrow> 'k::linorder) \<Rightarrow> 'a list \<Rightarrow> 'a list" where
  "sortDesc key xs = foldr (insertDesc key) xs []"

text \<open>The inner loop of \<^verbatim>\<open>planMigrations\<close>, over the containers of one source server,
  and its outer loop, over the sorted servers.  The registry is written under the
  mutex, which is free whenever \<^verbatim>\<open>planMigrations\<close> runs and is released after each write.\<close>

fun planContainers ::
  "PlannerConfig \<Rightarrow> Conversion \<Rightarrow> Collector \<Rightarrow> Scoring \<Rightarrow> Server \<Rightarrow> Server list
     \<Rightarrow> Container list \<Rightarrow> (string \<rightharpoonup> MigrationPlan) \<Rightarrow> (string \<rightharpoonup> MigrationPlan)" where
  "planContainers cfg impl c ecoScore sourceServer servers [] plans = plans"
| "planContainers cfg impl c ecoScore sourceServer servers (container # rest) plans =
     (case plans (CID container) of
        Some existing \<Rightarrow> planContainers cfg impl c ecoScore sourceServer servers rest plans
      | None \<Rightarrow>
          (case findBestMigrationPlan cfg impl c ecoScore container sourceServer servers of
             None \<Rightarrow> planContainers cfg impl c ecoScore sourceServer servers rest plans
           | Some bestPlan \<Rightarrow>
               planContainers cfg impl c ecoScore sourceServer servers rest
                 (plans(CID container \<mapsto> bestPlan))))"

fun planServers ::
  "Enumeration \<Rightarrow> PlannerConfig \<Rightarrow> Conversion \<Rightarrow> Collector \<Rightarrow> Scoring \<Rightarrow> Server list
     \<Rightarrow> Server list \<Rightarrow> (string \<rightharpoonup> MigrationPlan) \<Rightarrow> (string \<rightharpoonup> MigrationPlan)" where
  "planServers enum cfg impl c ecoScore servers [] plans = plans"
| "planServers enum cfg impl c ecoScore servers (sourceServer # rest) plans =
     (if getServerEcoScore c ecoScore (ID sourceServer) > 70
      then planServers enum cfg impl c ecoScore servers rest plans
      else
        (case enum (ID sourceServer) of
           Inl err \<Rightarrow> planServers enum cfg impl c ecoScore servers rest plans
         | Inr containers \<Rightarrow>
             planServers enum cfg impl c ecoScore servers rest
               (planContainers cfg impl c ecoScore sourceServer servers containers plans)))"

definition planMigrations ::
  "Enumeration \<Rightarrow> CloudProvider \<Rightarrow> Conversion \<Rightarrow> Collector \<Rightarrow> Scoring \<Rightarrow> Planner
     \<Rightarrow> error option \<times> Planner" where
  "planMigrations enum p impl c ecoScore P =
     (case GetInstances p of
        Inl err \<Rightarrow> (Some err, P)
      | Inr unsorted \<Rightarrow>
          (let servers = sortDesc (\<lambda>s. getServerEcoScore c ecoScore (ID s)) unsorted
           in (None, P\<lparr>activePlans :=
                 planServers enum (pconfig P) impl c ecoScore servers servers (activePlans P)\<rparr>)))"

subsection \<open>Executing the plans\<close>

text \<open>
  \<^verbatim>\<open>sync.RWMutex\<close>, write side: \<^verbatim>\<open>Lock\<close> on a held mutex waits until it is released
  (\<open>None\<close>: the caller does not proceed from the state at hand); the mutex has no owner
  and is not re-entrant.
\<close>

definition Lock :: "Planner \<Rightarrow> Planner option" where
  "Lock P = (if muLocked P then None else Some (P\<lparr>muLocked := True\<rparr>))"

definition Unlock :: "Planner \<Rightarrow> Planner" where
  "Unlock P = P\<lparr>muLocked := False\<rparr>"

text \<open>
  The body of the goroutine started for one plan: the relocation, and on success
  \<^verbatim>\<open>p.mu.Lock(); delete(p.activePlans, plan.ContainerID); p.mu.Unlock()\<close>.  \<open>None\<close>: the
  goroutine waits in \<^verbatim>\<open>Lock\<close>; its deferred \<^verbatim>\<open>wg.Done()\<close> and \<^verbatim>\<open><-sem\<close> have not run.
\<close>

definition migrationWorker :: "CloudProvider \<Rightarrow> MigrationPlan \<Rightarrow> Planner \<Rightarrow> Planner option" where
  "migrationWorker p plan P =
     (case MigrateContainer p (ContainerID plan) (SourceServerID plan) (TargetServerID plan) of
        Some err \<Rightarrow> Some P
      | None \<Rightarrow>
          (case Lock P of
             None \<Rightarrow> None
           | Some P' \<Rightarrow>
               Some (Unlock (P'\<lparr>activePlans := (activePlans P')(ContainerID plan := None)\<rparr>))))"

text \<open>
  What a call comes to: it returns, or it never returns because it waits for something
  that the state reached cannot bring about, or it panics.
\<close>

datatype 'a outcome = Returned 'a | Stuck 'a | Panicked

text \<open>
  The loop \<^verbatim>\<open>for _, plan := range plans\<close> of \<^verbatim>\<open>executeMigrations\<close> followed by
  \<^verbatim>\<open>wg.Wait()\<close>.  \<open>waiting\<close> counts the goroutines that wait for the mutex; each of them
  keeps its slot of the semaphore \<^verbatim>\<open>sem\<close>, whose capacity is \<open>slots\<close>.  The goroutines
  touch nothing but the mutex and their own plan's entry, and one that does not wait for
  the mutex ends and frees its slot, so running each body when it is started gives the
  state every schedule ends in.

  \<^item> \<^verbatim>\<open>sem <- struct{}{}\<close> proceeds once fewer than \<open>slots\<close> goroutines hold a slot; when
    \<open>slots\<close> of them wait for the mutex it never proceeds.
  \<^item> \<^verbatim>\<open>wg.Wait()\<close> returns once every goroutine has ended; with one waiting for the
    mutex it never returns, since the mutex is released by the \<^verbatim>\<open>defer p.mu.Unlock()\<close>
    of \<^verbatim>\<open>executeMigrations\<close>, which runs after \<^verbatim>\<open>wg.Wait()\<close>.

  The second component of the state is the list of relocations requested.
\<close>

fun launchWorkers ::
  "CloudProvider \<Rightarrow> int \<Rightarrow> MigrationPlan list \<Rightarrow> nat \<Rightarrow> Planner \<Rightarrow> Relocation list
     \<Rightarrow> (Planner \<times> Relocation list) outcome" where
  "launchWorkers p slots [] waiting P calls =
     (if waiting = 0 then Returned (P, calls) else Stuck (P, calls))"
| "launchWorkers p slots (plan # rest) waiting P calls =
     (if slots \<le> int waiting then Stuck (P, calls)
      else
        (case migrationWorker p plan P of
           None \<Rightarrow>
             launchWorkers p slots rest (Suc waiting) P
               (calls @ [(ContainerID plan, SourceServerID plan, TargetServerID plan)])
         | Some P' \<Rightarrow>
             launchWorkers p slots rest waiting P'
               (calls @ [(ContainerID plan, SourceServerID plan, TargetServerID plan)])))"

text \<open>
  \<^verbatim>\<open>executeMigrations\<close>.  \<open>order\<close> is the order in which the \<^verbatim>\<open>range\<close> loop visits the keys
  of \<^verbatim>\<open>activePlans\<close>, which Go does not fix.  \<^verbatim>\<open>make(chan struct{}, n)\<close> panics for a
  negative \<open>n\<close>.  The mutex taken on entry is released by the deferred \<^verbatim>\<open>Unlock\<close> when the
  function returns.
\<close>

definition executeMigrations ::
  "CloudProvider \<Rightarrow> string list \<Rightarrow> Planner \<Rightarrow> (Planner \<times> Relocation list) outcome" where
  "executeMigrations p order P =
     (case Lock P of
        None \<Rightarrow> Stuck (P, [])
      | Some P1 \<Rightarrow>
          (let plans = sortDesc Priority (List.map_filter (activePlans P1) order)
           in if ConcurrentMigrations (pconfig P1) < 0 then Panicked
              else
                (case launchWorkers p (ConcurrentMigrations (pconfig P1)) plans 0 P1 [] of
                   Returned (P2, calls) \<Rightarrow> Returned (Unlock P2, calls)
                 | Stuck s \<Rightarrow> Stuck s
                 | Panicked \<Rightarrow> Panicked)))"

text \<open>Fixtures: the planner of \<^verbatim>\<open>cmd/server/main.go\<close> with a given registry, and a plan.\<close>

definition plannerConfig :: PlannerConfig where
  "plannerConfig =
     \<lparr>MinPowerSaving = 100, MaxDowntime = 2 * Minute, PlanningInterval = 5 * Minute,
      ConcurrentMigrations = 3\<rparr>"

definition plannerOf :: "(string \<rightharpoonup> MigrationPlan) \<Rightarrow> Planner" where
  "plannerOf plans = \<lparr>pconfig = plannerConfig, activePlans = plans, muLocked = False\<rparr>"

definition planOf :: "string \<Rightarrow> string \<Rightarrow> string \<Rightarrow> int \<Rightarrow> MigrationPlan" where
  "planOf cid src tgt prio =
     \<lparr>ContainerID = cid, SourceServerID = src, TargetServerID = tgt, Priority = prio,
      PowerSaving = Fin 150, DowntimeEstimate = 30 * Second\<rparr>"

definition refusingProvider :: "Server list \<Rightarrow> CloudProvider" where
  "refusingProvider servers =
     \<lparr>GetInstances = Inr servers,
      MigrateContainer = (\<lambda>cid src tgt. Some (Errorf ''migration refused''))\<rparr>"

section \<open>Properties\<close>

subsection \<open>Scoring engine\<close>

lemma foldl_add_acc:
  "foldl (\<lambda>s m. s + f m) a xs = a + foldl (\<lambda>s m. s + f m) (0::real) xs"
proof (induction xs arbitrary: a)
  case Nil
  show ?case by simp
next
  case (Cons x xs)
  have "foldl (\<lambda>s m. s + f m) a (x # xs) = (a + f x) + foldl (\<lambda>s m. s + f m) 0 xs"
    using Cons.IH [of "a + f x"] by simp
  also have "\<dots> = a + (f x + foldl (\<lambda>s m. s + f m) 0 xs)"
    by simp
  also have "\<dots> = a + foldl (\<lambda>s m. s + f m) 0 (x # xs)"
    using Cons.IH [of "0 + f x"] by simp
  finally show ?case .
qed

lemma foldl_add_bounds:
  assumes "\<forall>m \<in> set xs. lo \<le> f m \<and> f m \<le> hi"
  shows "lo * real (length xs) \<le> foldl (\<lambda>s m. s + f m) (0::real) xs
         \<and> foldl (\<lambda>s m. s + f m) (0::real) xs \<le> hi * real (length xs)"
  using assms
proof (induction xs)
  case Nil
  show ?case by simp
next
  case (Cons x xs)
  have step: "foldl (\<lambda>s m. s + f m) 0 (x # xs) = f x + foldl (\<lambda>s m. s + f m) 0 xs"
    using foldl_add_acc [of f "0 + f x" xs] by simp
  have "lo \<le> f x" "f x \<le> hi" using Cons.prems by simp_all
  moreover have "lo * real (length xs) \<le> foldl (\<lambda>s m. s + f m) 0 xs"
    "foldl (\<lambda>s m. s + f m) 0 xs \<le> hi * real (length xs)"
    using Cons by simp_all
  ultimately show ?case
    unfolding step by (simp add: algebra_simps)
qed

lemma avg_bounds:
  assumes "xs \<noteq> []" and "\<forall>m \<in> set xs. lo \<le> f m \<and> f m \<le> hi"
  shows "lo \<le> foldl (\<lambda>s m. s + f m) (0::real) xs / real (length xs)"
    and "foldl (\<lambda>s m. s + f m) (0::real) xs / real (length xs) \<le> hi"
proof -
  have n: "0 < real (length xs)" using assms(1) by simp
  note b = foldl_add_bounds [OF assms(2)]
  show "lo \<le> foldl (\<lambda>s m. s + f m) (0::real) xs / real (length xs)"
    using b n by (simp add: pos_le_divide_eq)
  show "foldl (\<lambda>s m. s + f m) (0::real) xs / real (length xs) \<le> hi"
    using b n by (simp add: pos_divide_le_eq)
qed

lemma avg_nonneg:
  assumes "\<forall>m \<in> set xs. 0 \<le> f m"
  shows "0 \<le> foldl (\<lambda>s m. s + f m) (0::real) xs / real (length xs)"
proof -
  have "0 \<le> foldl (\<lambda>s m. s + f m) (0::real) xs"
    using assms
  proof (induction xs)
    case Nil
    show ?case by simp
  next
    case (Cons x xs)
    have "foldl (\<lambda>s m. s + f m) 0 (x # xs) = f x + foldl (\<lambda>s m. s + f m) 0 xs"
      using foldl_add_acc [of f "0 + f x" xs] by simp
    then show ?case using Cons by simp
  qed
  then show ?thesis by simp
qed

lemma calculatePowerScore_range:
  assumes "\<forall>m \<in> set ms. 0 \<le> PowerUsage m"
  shows "0 \<le> calculatePowerScore ms \<and> calculatePowerScore ms \<le> 1"
proof -
  have "0 \<le> calculateMean ms"
    unfolding calculateMean_def using avg_nonneg [of ms PowerUsage] assms by simp
  then show ?thesis
    unfolding calculatePowerScore_def by simp
qed

lemma calculateCarbonScore_range:
  assumes "\<forall>m \<in> set ms. 0 \<le> CarbonFootprint m"
  shows "0 \<le> calculateCarbonScore ms \<and> calculateCarbonScore ms \<le> 1"
proof -
  have "0 \<le> foldl (\<lambda>s m. s + CarbonFootprint m) 0 ms / real (length ms)"
    using avg_nonneg [of ms CarbonFootprint] assms by simp
  then show ?thesis
    unfolding calculateCarbonScore_def Let_def by simp
qed

lemma utilization_sample_range:
  assumes "0 \<le> cpu" and "cpu \<le> (100::real)"
  shows "0.3 \<le> 1 - \<bar>0.7 - cpu / 100\<bar> \<and> 1 - \<bar>0.7 - cpu / 100\<bar> \<le> 1"
  using assms by (simp add: abs_if)

lemma calculateUtilizationScore_range:
  assumes "ms \<noteq> []" and "\<forall>m \<in> set ms. 0 \<le> CPUUsage m \<and> CPUUsage m \<le> 100"
  shows "0.3 \<le> calculateUtilizationScore ms \<and> calculateUtilizationScore ms \<le> 1"
proof -
  have b: "\<forall>m \<in> set ms. 0.3 \<le> (1 - \<bar>0.7 - CPUUsage m / 100\<bar>)
                        \<and> (1 - \<bar>0.7 - CPUUsage m / 100\<bar>) \<le> 1"
    using assms(2) utilization_sample_range by blast
  show ?thesis
    unfolding calculateUtilizationScore_def
    using avg_bounds [OF assms(1) b] by simp
qed

lemma avg_le:
  assumes "xs \<noteq> []" and "\<forall>m \<in> set xs. f m \<le> hi"
  shows "foldl (\<lambda>s m. s + f m) (0::real) xs / real (length xs) \<le> hi"
proof -
  have "foldl (\<lambda>s m. s + f m) (0::real) xs \<le> hi * real (length xs)"
    using assms(2)
  proof (induction xs)
    case Nil
    show ?case by simp
  next
    case (Cons x xs)
    have "foldl (\<lambda>s m. s + f m) 0 (x # xs) = f x + foldl (\<lambda>s m. s + f m) 0 xs"
      using foldl_add_acc [of f "0 + f x" xs] by simp
    then show ?case using Cons by (simp add: algebra_simps)
  qed
  moreover have "0 < real (length xs)" using assms(1) by simp
  ultimately show ?thesis by (simp add: pos_divide_le_eq)
qed

text \<open>
  Under the hypotheses of the claim the score cannot exceed 100, and it is non-negative
  as soon as the utilisation score is: the power and carbon scores are clamped at zero
  by \<^verbatim>\<open>math.Max\<close>.  Only the lower bound of the utilisation score is open.
\<close>

lemma calculateEfficiencyScore_upper:
  assumes "ms \<noteq> []"
    and "\<forall>m \<in> set ms. 0 \<le> PowerUsage m \<and> 0 \<le> CarbonFootprint m"
  shows "calculateEfficiencyScore ms \<le> 100"
proof -
  have p: "calculatePowerScore ms \<le> 1"
    using calculatePowerScore_range [of ms] assms(2) by simp
  have c: "calculateCarbonScore ms \<le> 1"
    using calculateCarbonScore_range [of ms] assms(2) by simp
  have "\<forall>m \<in> set ms. 1 - \<bar>0.7 - CPUUsage m / 100\<bar> \<le> 1"
    by simp
  then have u: "calculateUtilizationScore ms \<le> 1"
    unfolding calculateUtilizationScore_def
    by (rule avg_le [OF assms(1), of "\<lambda>m. 1 - \<bar>0.7 - CPUUsage m / 100\<bar>" 1])
  show ?thesis
    using assms(1) p c u by (simp add: calculateEfficiencyScore_def)
qed

lemma calculateEfficiencyScore_lower:
  assumes "0 \<le> calculateUtilizationScore ms"
  shows "0 \<le> calculateEfficiencyScore ms"
proof -
  have "0 \<le> calculatePowerScore ms" "0 \<le> calculateCarbonScore ms"
    by (simp_all add: calculatePowerScore_def calculateCarbonScore_def Let_def)
  then show ?thesis
    using assms by (simp add: calculateEfficiencyScore_def)
qed

text \<open>
  \<^bold>\<open>C1\<close>.  \<^verbatim>\<open>calculatePowerScore\<close> and \<^verbatim>\<open>calculateCarbonScore\<close> clamp their result with
  \<^verbatim>\<open>math.Max(0, ...)\<close>; \<^verbatim>\<open>calculateUtilizationScore\<close> does not.  The sample set below is
  non-empty and its power draw and carbon footprint are non-negative, as the claim
  requires; the sample reports 1000 percent CPU.  Its utilisation score is
  \<open>1 - 9.3 = -8.3\<close> and enters the weighted sum as it is: the composite score is
  \<open>-179\<close>, outside \<open>[0, 100]\<close>.
\<close>

theorem calculateEfficiencyScore_unclamped_utilization:
  "[sample ''s1'' 0 1000 0 0] \<noteq> []
   \<and> 0 \<le> PowerUsage (sample ''s1'' 0 1000 0 0)
   \<and> 0 \<le> CarbonFootprint (sample ''s1'' 0 1000 0 0)
   \<and> calculatePowerScore [sample ''s1'' 0 1000 0 0] = 1
   \<and> calculateCarbonScore [sample ''s1'' 0 1000 0 0] = 1
   \<and> calculateUtilizationScore [sample ''s1'' 0 1000 0 0] = - 8.3
   \<and> calculateEfficiencyScore [sample ''s1'' 0 1000 0 0] = - 179
   \<and> \<not> 0 \<le> calculateEfficiencyScore [sample ''s1'' 0 1000 0 0]"
  by (simp add: calculateEfficiencyScore_def calculatePowerScore_def calculateMean_def
      calculateUtilizationScore_def calculateCarbonScore_def sample_def)

subsection \<open>Metric store\<close>

lemma filterAfter_filter:
  "filterAfter cutoff ms = filter (\<lambda>m. cutoff < Unix (Timestamp m) 0) ms"
  by (induction ms) (simp_all add: After_def)

text \<open>
  \<^bold>\<open>C7\<close> (as amended).  \<^verbatim>\<open>CollectMetrics\<close> returns in every state of the channel: where
  a plain send would have to wait, it returns the error \<^verbatim>\<open>metric buffer is full\<close> and
  leaves the collector, its queue included, unchanged.  That is the case exactly when
  the buffer is at capacity and the consumer is not parked in its receive.  When the
  consumer is not parked and the buffer has room, the call returns \<^verbatim>\<open>nil\<close> and the
  one-sample batch is the newest element of the queue.  When the consumer is parked in
  its receive the batch is handed to it, the queue is untouched and the call returns
  \<^verbatim>\<open>nil\<close>; with \<^verbatim>\<open>BufferSize\<close> at least 1 and a consumer that parks on an empty queue
  only, a buffer at capacity therefore always gives the error.
\<close>

theorem CollectMetrics_nonblocking:
  "(chanSend c \<lparr>BServerID = serverID, BMetrics = [data], BTimestamp = now\<rparr> = Waits
      \<longleftrightarrow> consumer c \<noteq> Parked \<and> BufferSize (config c) \<le> int (length (buffer c)))
   \<and> (consumer c \<noteq> Parked \<and> BufferSize (config c) \<le> int (length (buffer c)) \<longrightarrow>
      CollectMetrics now c serverID data = (Some (Errorf ''metric buffer is full''), c))
   \<and> (consumer c \<noteq> Parked \<and> int (length (buffer c)) < BufferSize (config c) \<longrightarrow>
      CollectMetrics now c serverID data =
        (None, c\<lparr>buffer := buffer c @
                  [\<lparr>BServerID = serverID, BMetrics = [data], BTimestamp = now\<rparr>]\<rparr>))
   \<and> (consumer c = Parked \<longrightarrow>
      CollectMetrics now c serverID data =
        (None, c\<lparr>consumer :=
                  Holding \<lparr>BServerID = serverID, BMetrics = [data], BTimestamp = now\<rparr>\<rparr>))
   \<and> (0 < BufferSize (config c) \<and> (consumer c = Parked \<longrightarrow> buffer c = [])
        \<and> BufferSize (config c) \<le> int (length (buffer c)) \<longrightarrow>
      CollectMetrics now c serverID data = (Some (Errorf ''metric buffer is full''), c))"
proof -
  let ?batch = "\<lparr>BServerID = serverID, BMetrics = [data], BTimestamp = now\<rparr>"
  have waits: "chanSend c ?batch = Waits
      \<longleftrightarrow> consumer c \<noteq> Parked \<and> BufferSize (config c) \<le> int (length (buffer c))"
    by (cases "consumer c") (simp_all add: chanSend_def)
  have full: "CollectMetrics now c serverID data = (Some (Errorf ''metric buffer is full''), c)"
    if "consumer c \<noteq> Parked" and "BufferSize (config c) \<le> int (length (buffer c))"
    using that by (cases "consumer c") (simp_all add: CollectMetrics_def chanSend_def)
  have room: "CollectMetrics now c serverID data = (None, c\<lparr>buffer := buffer c @ [?batch]\<rparr>)"
    if "consumer c \<noteq> Parked" and "int (length (buffer c)) < BufferSize (config c)"
    using that by (cases "consumer c") (simp_all add: CollectMetrics_def chanSend_def)
  have hand: "CollectMetrics now c serverID data = (None, c\<lparr>consumer := Holding ?batch\<rparr>)"
    if "consumer c = Parked"
    using that by (simp add: CollectMetrics_def chanSend_def)
  have buffered: "CollectMetrics now c serverID data
                    = (Some (Errorf ''metric buffer is full''), c)"
    if "0 < BufferSize (config c)" and "consumer c = Parked \<longrightarrow> buffer c = []"
      and "BufferSize (config c) \<le> int (length (buffer c))"
  proof -
    have "consumer c \<noteq> Parked" using that by auto
    then show ?thesis using full that(3) by blast
  qed
  show ?thesis
    using waits full room hand buffered by blast
qed

theorem CollectMetrics_nonblocking_witness:
  "CollectMetrics 5 (collectorOf 60 1 Map.empty) ''s1'' (sample ''s1'' 1 50 100 0)
     = (None, (collectorOf 60 1 Map.empty)\<lparr>buffer :=
          [\<lparr>BServerID = ''s1'', BMetrics = [sample ''s1'' 1 50 100 0], BTimestamp = 5\<rparr>]\<rparr>)
   \<and> CollectMetrics 6
        ((collectorOf 60 1 Map.empty)\<lparr>buffer :=
          [\<lparr>BServerID = ''s1'', BMetrics = [sample ''s1'' 1 50 100 0], BTimestamp = 5\<rparr>]\<rparr>)
        ''s2'' (sample ''s2'' 2 50 100 0)
     = (Some (Errorf ''metric buffer is full''),
        (collectorOf 60 1 Map.empty)\<lparr>buffer :=
          [\<lparr>BServerID = ''s1'', BMetrics = [sample ''s1'' 1 50 100 0], BTimestamp = 5\<rparr>]\<rparr>)
   \<and> CollectMetrics 7 ((collectorOf 60 1 Map.empty)\<lparr>consumer := Parked\<rparr>) ''s3''
        (sample ''s3'' 3 50 100 0)
     = (None, (collectorOf 60 1 Map.empty)\<lparr>consumer :=
          Holding \<lparr>BServerID = ''s3'', BMetrics = [sample ''s3'' 3 50 100 0], BTimestamp = 7\<rparr>\<rparr>)"
proof -
  let ?c0 = "collectorOf 60 1 Map.empty"
  let ?b1 = "\<lparr>BServerID = ''s1'', BMetrics = [sample ''s1'' 1 50 100 0], BTimestamp = 5\<rparr>"
  let ?c1 = "?c0\<lparr>buffer := [?b1]\<rparr>"
  let ?c2 = "?c0\<lparr>consumer := Parked\<rparr>"
  have room: "consumer ?c0 \<noteq> Parked \<and> int (length (buffer ?c0)) < BufferSize (config ?c0)"
    by (simp add: collectorOf_def)
  have first: "CollectMetrics 5 ?c0 ''s1'' (sample ''s1'' 1 50 100 0)
                 = (None, ?c0\<lparr>buffer := buffer ?c0 @ [?b1]\<rparr>)"
    using CollectMetrics_nonblocking [of ?c0 "''s1''" "sample ''s1'' 1 50 100 0" 5] room
    by blast
  have e: "?c0\<lparr>buffer := buffer ?c0 @ [?b1]\<rparr> = ?c1"
    by (simp add: collectorOf_def)
  have full: "consumer ?c1 \<noteq> Parked \<and> BufferSize (config ?c1) \<le> int (length (buffer ?c1))"
    by (simp add: collectorOf_def)
  have second: "CollectMetrics 6 ?c1 ''s2'' (sample ''s2'' 2 50 100 0)
                  = (Some (Errorf ''metric buffer is full''), ?c1)"
    using CollectMetrics_nonblocking [of ?c1 "''s2''" "sample ''s2'' 2 50 100 0" 6] full
    by blast
  have parked: "consumer ?c2 = Parked"
    by simp
  have third: "CollectMetrics 7 ?c2 ''s3'' (sample ''s3'' 3 50 100 0)
      = (None, ?c2\<lparr>consumer :=
           Holding \<lparr>BServerID = ''s3'', BMetrics = [sample ''s3'' 3 50 100 0], BTimestamp = 7\<rparr>\<rparr>)"
    using CollectMetrics_nonblocking [of ?c2 "''s3''" "sample ''s3'' 3 50 100 0" 7] parked
    by blast
  show ?thesis
    using first second third unfolding e by simp
qed

text \<open>
  The claim as written makes the error depend on the buffer alone.  A channel made with
  \<^verbatim>\<open>BufferSize = 0\<close> has no room at any time, so its buffer is always at capacity; when
  the consumer is parked in its receive the send proceeds all the same, and the call
  returns \<^verbatim>\<open>nil\<close>.
\<close>

theorem CollectMetrics_unbuffered_counterexample:
  "BufferSize (config ((collectorOf 60 0 Map.empty)\<lparr>consumer := Parked\<rparr>))
     \<le> int (length (buffer ((collectorOf 60 0 Map.empty)\<lparr>consumer := Parked\<rparr>)))
   \<and> CollectMetrics 5 ((collectorOf 60 0 Map.empty)\<lparr>consumer := Parked\<rparr>) ''s1''
        (sample ''s1'' 1 50 100 0)
     = (None, (collectorOf 60 0 Map.empty)\<lparr>consumer :=
          Holding \<lparr>BServerID = ''s1'', BMetrics = [sample ''s1'' 1 50 100 0], BTimestamp = 5\<rparr>\<rparr>)
   \<and> fst (CollectMetrics 5 ((collectorOf 60 0 Map.empty)\<lparr>consumer := Parked\<rparr>) ''s1''
        (sample ''s1'' 1 50 100 0)) \<noteq> Some (Errorf ''metric buffer is full'')"
  by (simp add: CollectMetrics_def chanSend_def collectorOf_def)

text \<open>
  \<^bold>\<open>C8\<close> (as amended).  After one sweep at time \<open>now\<close> with retention period \<open>R\<close>, the
  series of every tracked server is the old series restricted to the samples whose
  timestamp is strictly later than \<open>now - R\<close>, in their old order: every retained sample
  is later than the cutoff, and an old sample is retained exactly when it is later than
  the cutoff.  A sample stamped exactly \<open>now - R\<close> is dropped.
\<close>

theorem cleanupOldMetrics_window:
  assumes "metrics c serverID = Some sm"
  shows "\<exists>sm'. metrics (cleanupOldMetrics now c) serverID = Some sm'
           \<and> LastUpdate sm' = LastUpdate sm
           \<and> Data sm' = filter (\<lambda>m. now - RetentionPeriod (config c) < Unix (Timestamp m) 0)
                          (Data sm)
           \<and> (\<forall>m \<in> set (Data sm'). now - RetentionPeriod (config c) < Unix (Timestamp m) 0)
           \<and> (\<forall>m \<in> set (Data sm).
                 m \<in> set (Data sm') \<longleftrightarrow> now - RetentionPeriod (config c) < Unix (Timestamp m) 0)"
  using assms by (simp add: cleanupOldMetrics_def Let_def filterAfter_filter)

theorem cleanupOldMetrics_window_witness:
  "metrics (cleanupOldMetrics 200000000000
      (collectorOf 60000000000 1000
         [''s1'' \<mapsto> \<lparr>Data = [sample ''s1'' 100 50 100 0, sample ''s1'' 150 50 100 0,
                              sample ''s1'' 141 50 100 0],
                      LastUpdate = 150000000000\<rparr>])) ''s1''
   = Some \<lparr>Data = [sample ''s1'' 150 50 100 0, sample ''s1'' 141 50 100 0],
           LastUpdate = 150000000000\<rparr>"
proof -
  let ?sm = "\<lparr>Data = [sample ''s1'' 100 50 100 0, sample ''s1'' 150 50 100 0,
                      sample ''s1'' 141 50 100 0],
              LastUpdate = 150000000000\<rparr>"
  let ?c = "collectorOf 60000000000 1000 [''s1'' \<mapsto> ?sm]"
  have h: "metrics ?c ''s1'' = Some ?sm"
    by (simp add: collectorOf_def)
  obtain sm' where s: "metrics (cleanupOldMetrics 200000000000 ?c) ''s1'' = Some sm'"
    and l: "LastUpdate sm' = LastUpdate ?sm"
    and d: "Data sm' = filter (\<lambda>m. 200000000000 - RetentionPeriod (config ?c)
                                    < Unix (Timestamp m) 0) (Data ?sm)"
    using cleanupOldMetrics_window [OF h, of 200000000000] by blast
  have "Data sm' = [sample ''s1'' 150 50 100 0, sample ''s1'' 141 50 100 0]"
    unfolding d by (simp add: collectorOf_def sample_def Unix_def)
  with l have "sm' = \<lparr>Data = [sample ''s1'' 150 50 100 0, sample ''s1'' 141 50 100 0],
                       LastUpdate = 150000000000\<rparr>"
    by simp
  with s show ?thesis by simp
qed

text \<open>
  The claim as written keeps every sample with timestamp \<open>\<ge> now - R\<close>.  With
  \<open>R = 60 s\<close> and a sweep at \<open>160 s\<close> the cutoff is \<open>100 s\<close>; a sample stamped \<open>100 s\<close>
  is inside that window, and \<^verbatim>\<open>After\<close>, being strict, drops it.
\<close>

theorem cleanupOldMetrics_boundary_counterexample:
  "160000000000 - 60000000000 \<le> Unix (Timestamp (sample ''s1'' 100 50 100 0)) 0
   \<and> metrics (cleanupOldMetrics 160000000000
        (collectorOf 60000000000 1000
           [''s1'' \<mapsto> \<lparr>Data = [sample ''s1'' 100 50 100 0], LastUpdate = 100000000000\<rparr>]))
        ''s1''
     = Some \<lparr>Data = [], LastUpdate = 100000000000\<rparr>"
  by (simp add: cleanupOldMetrics_def Let_def collectorOf_def sample_def Unix_def After_def)

subsection \<open>Autoscaler\<close>

lemma migrateEach_map:
  "migrateEach p sourceID targetID cs = map (\<lambda>k. (CID k, sourceID, targetID)) cs"
  by (induction cs) (simp_all split: option.splits)

lemma migrateAll_prefix:
  "\<exists>n. snd (migrateAll p sourceID targetID cs)
         = take n (map (\<lambda>k. (CID k, sourceID, targetID)) cs)"
proof (induction cs)
  case Nil
  show ?case by simp
next
  case (Cons k cs)
  then obtain n where n: "snd (migrateAll p sourceID targetID cs)
      = take n (map (\<lambda>k. (CID k, sourceID, targetID)) cs)"
    by blast
  show ?case
  proof (cases "MigrateContainer p (CID k) sourceID targetID")
    case None
    then have "snd (migrateAll p sourceID targetID (k # cs))
        = take (Suc n) (map (\<lambda>k. (CID k, sourceID, targetID)) (k # cs))"
      using n by (cases "migrateAll p sourceID targetID cs") simp
    then show ?thesis by blast
  next
    case (Some err)
    then have "snd (migrateAll p sourceID targetID (k # cs))
        = take (Suc 0) (map (\<lambda>k. (CID k, sourceID, targetID)) (k # cs))"
      by simp
    then show ?thesis by blast
  qed
qed

lemma bestServerLoop_no_better:
  assumes "\<forall>s \<in> set servers. \<forall>ms. GetMetrics c (ID s) = Inr ms \<longrightarrow> ecoScore ms \<le> bestScore"
  shows "bestServerLoop c ecoScore servers bestServer bestScore = (bestServer, bestScore)"
  using assms
proof (induction servers)
  case Nil
  show ?case by simp
next
  case (Cons s servers)
  show ?case
  proof (cases "GetMetrics c (ID s)")
    case (Inl err)
    then show ?thesis using Cons by simp
  next
    case (Inr ms)
    then have "\<not> ecoScore ms > bestScore" using Cons.prems by fastforce
    then show ?thesis using Inr Cons by (simp add: Let_def)
  qed
qed

lemma scaleUp_cases:
  "scaleUp enum p c ecoScore now a server =
     (case findEnergyEfficientServer p c ecoScore of
        Inl err \<Rightarrow> (Some err, a, [])
      | Inr t \<Rightarrow>
          (case enum (ID server) of
             Inl err \<Rightarrow> (Some err, a, [])
           | Inr cs \<Rightarrow> (None, a\<lparr>lastScaleUp := now\<rparr>,
                         map (\<lambda>k. (CID k, ID server, ID t)) cs)))"
  by (simp add: scaleUp_def migrateEach_map split: sum.splits)

text \<open>
  \<^bold>\<open>C9\<close>.  A pass that returns because target selection or container enumeration failed
  returns that error with the autoscaler's state as it was and without having requested
  a relocation.  The state a pass returns differs from the one it was given only when
  the pass ran to the end of its relocation loop, and then only in its own timestamp:
  \<^verbatim>\<open>scaleUp\<close> sets \<^verbatim>\<open>lastScaleUp\<close> after the loop over all containers, \<^verbatim>\<open>scaleDown\<close> sets
  \<^verbatim>\<open>lastScaleDown\<close> after a loop in which every relocation succeeded.
\<close>

theorem failed_pass_keeps_cooldown:
  "(\<forall>err. findEnergyEfficientServer p c ecoScore = Inl err \<longrightarrow>
       scaleUp enum p c ecoScore now a server = (Some err, a, [])
       \<and> (\<not> 80 < ecoScore [] \<longrightarrow>
            scaleDown enum p c ecoScore now a server = (Some err, a, [])))
   \<and> (\<forall>err t. findEnergyEfficientServer p c ecoScore = Inr t \<and> enum (ID server) = Inl err \<longrightarrow>
       scaleUp enum p c ecoScore now a server = (Some err, a, [])
       \<and> (\<not> 80 < ecoScore [] \<longrightarrow>
            scaleDown enum p c ecoScore now a server = (Some err, a, [])))
   \<and> (fst (snd (scaleUp enum p c ecoScore now a server)) = a
       \<or> (\<exists>t cs. findEnergyEfficientServer p c ecoScore = Inr t \<and> enum (ID server) = Inr cs
             \<and> scaleUp enum p c ecoScore now a server
                 = (None, a\<lparr>lastScaleUp := now\<rparr>, migrateEach p (ID server) (ID t) cs)))
   \<and> (fst (snd (scaleDown enum p c ecoScore now a server)) = a
       \<or> (\<exists>t cs calls. findEnergyEfficientServer p c ecoScore = Inr t
             \<and> enum (ID server) = Inr cs
             \<and> migrateAll p (ID server) (ID t) cs = (None, calls)
             \<and> scaleDown enum p c ecoScore now a server
                 = (None, a\<lparr>lastScaleDown := now\<rparr>, calls)))"
proof -
  have up: "fst (snd (scaleUp enum p c ecoScore now a server)) = a
       \<or> (\<exists>t cs. findEnergyEfficientServer p c ecoScore = Inr t \<and> enum (ID server) = Inr cs
             \<and> scaleUp enum p c ecoScore now a server
                 = (None, a\<lparr>lastScaleUp := now\<rparr>, migrateEach p (ID server) (ID t) cs))"
    by (simp add: scaleUp_def split: sum.splits)
  have down: "fst (snd (scaleDown enum p c ecoScore now a server)) = a
       \<or> (\<exists>t cs calls. findEnergyEfficientServer p c ecoScore = Inr t
             \<and> enum (ID server) = Inr cs
             \<and> migrateAll p (ID server) (ID t) cs = (None, calls)
             \<and> scaleDown enum p c ecoScore now a server
                 = (None, a\<lparr>lastScaleDown := now\<rparr>, calls))"
    by (simp add: scaleDown_def split: sum.splits prod.splits option.splits)
  have sel: "\<forall>err. findEnergyEfficientServer p c ecoScore = Inl err \<longrightarrow>
       scaleUp enum p c ecoScore now a server = (Some err, a, [])
       \<and> (\<not> 80 < ecoScore [] \<longrightarrow>
            scaleDown enum p c ecoScore now a server = (Some err, a, []))"
    by (simp add: scaleUp_def scaleDown_def)
  have enu: "\<forall>err t. findEnergyEfficientServer p c ecoScore = Inr t \<and> enum (ID server) = Inl err \<longrightarrow>
       scaleUp enum p c ecoScore now a server = (Some err, a, [])
       \<and> (\<not> 80 < ecoScore [] \<longrightarrow>
            scaleDown enum p c ecoScore now a server = (Some err, a, []))"
    by (simp add: scaleUp_def scaleDown_def)
  show ?thesis
    using sel enu up down by blast
qed
theorem failed_pass_keeps_cooldown_witness:
  "scaleUp oneContainer failingProvider (collectorOf 60 10 Map.empty) CalculateEcoScore 1000
       (autoscalerOf 3 4) (serverOf ''s1'' ''eu'')
     = (Some (Errorf ''provider unavailable''), autoscalerOf 3 4, [])
   \<and> scaleDown oneContainer failingProvider (collectorOf 60 10 Map.empty) CalculateEcoScore 1000
       (autoscalerOf 3 4) (serverOf ''s1'' ''eu'')
     = (Some (Errorf ''provider unavailable''), autoscalerOf 3 4, [])
   \<and> scaleUp failingEnumeration (providerOf []) (collectorOf 60 10 Map.empty) CalculateEcoScore
       1000 (autoscalerOf 3 4) (serverOf ''s1'' ''eu'')
     = (Some (Errorf ''orchestrator unavailable''), autoscalerOf 3 4, [])
   \<and> scaleDown failingEnumeration (providerOf []) (collectorOf 60 10 Map.empty)
       CalculateEcoScore 1000 (autoscalerOf 3 4) (serverOf ''s1'' ''eu'')
     = (Some (Errorf ''orchestrator unavailable''), autoscalerOf 3 4, [])"
proof -
  let ?c = "collectorOf 60 10 Map.empty"
  let ?a = "autoscalerOf 3 4"
  let ?s = "serverOf ''s1'' ''eu''"
  have gate: "\<not> 80 < CalculateEcoScore []"
    by (simp add: CalculateEcoScore_def calculateEfficiencyScore_def)
  have sel: "findEnergyEfficientServer failingProvider ?c CalculateEcoScore
               = Inl (Errorf ''provider unavailable'')"
    by (simp add: findEnergyEfficientServer_def failingProvider_def)
  have tgt: "findEnergyEfficientServer (providerOf []) ?c CalculateEcoScore = Inr zeroServer"
    by (simp add: findEnergyEfficientServer_def providerOf_def)
  have enu: "failingEnumeration (ID ?s) = Inl (Errorf ''orchestrator unavailable'')"
    by (simp add: failingEnumeration_def)
  show ?thesis
    using failed_pass_keeps_cooldown [where p = failingProvider and c = ?c
          and ecoScore = CalculateEcoScore and enum = oneContainer and now = 1000
          and a = ?a and server = ?s]
      failed_pass_keeps_cooldown [where p = "providerOf []" and c = ?c
          and ecoScore = CalculateEcoScore and enum = failingEnumeration and now = 1000
          and a = ?a and server = ?s]
      gate sel tgt enu
    by blast
qed

text \<open>
  \<^bold>\<open>C10\<close>.  When the provider lists a fleet in which no server with retained samples
  scores above zero (an empty fleet and a fleet without any retained series included),
  \<^verbatim>\<open>findEnergyEfficientServer\<close> returns the zero-value server, whose identifier is empty,
  and no error.  The pass that called it goes on: \<^verbatim>\<open>scaleUp\<close> requests the relocation of
  every enumerated container to the empty identifier, sets \<^verbatim>\<open>lastScaleUp\<close> and returns
  \<^verbatim>\<open>nil\<close>; \<^verbatim>\<open>scaleDown\<close>, once past its gate, runs its relocation loop with the empty
  identifier as target, and every relocation it requests names that target.
\<close>

theorem no_positive_score_yields_zero_server:
  assumes "GetInstances p = Inr servers"
    and "\<forall>s \<in> set servers. \<forall>ms. GetMetrics c (ID s) = Inr ms \<longrightarrow> ecoScore ms \<le> 0"
  shows "findEnergyEfficientServer p c ecoScore = Inr zeroServer
         \<and> ID zeroServer = []
         \<and> (\<forall>cs. enum (ID server) = Inr cs \<longrightarrow>
               scaleUp enum p c ecoScore now a server
                 = (None, a\<lparr>lastScaleUp := now\<rparr>, map (\<lambda>k. (CID k, ID server, [])) cs)
               \<and> (\<not> 80 < ecoScore [] \<longrightarrow>
                    scaleDown enum p c ecoScore now a server
                      = (case migrateAll p (ID server) [] cs of
                           (Some err, calls) \<Rightarrow> (Some err, a, calls)
                         | (None, calls) \<Rightarrow> (None, a\<lparr>lastScaleDown := now\<rparr>, calls))
                    \<and> (\<exists>n. snd (snd (scaleDown enum p c ecoScore now a server))
                              = take n (map (\<lambda>k. (CID k, ID server, [])) cs))))"
proof -
  have loop: "bestServerLoop c ecoScore servers zeroServer 0 = (zeroServer, 0)"
    using bestServerLoop_no_better [OF assms(2)] .
  have find: "findEnergyEfficientServer p c ecoScore = Inr zeroServer"
    using assms(1) loop by (simp add: findEnergyEfficientServer_def)
  have zid: "ID zeroServer = []"
    by (simp add: zeroServer_def)
  have up: "scaleUp enum p c ecoScore now a server
              = (None, a\<lparr>lastScaleUp := now\<rparr>, map (\<lambda>k. (CID k, ID server, [])) cs)"
    if "enum (ID server) = Inr cs" for cs
    using find zid that by (simp add: scaleUp_cases)
  have down: "scaleDown enum p c ecoScore now a server
                = (case migrateAll p (ID server) [] cs of
                     (Some err, calls) \<Rightarrow> (Some err, a, calls)
                   | (None, calls) \<Rightarrow> (None, a\<lparr>lastScaleDown := now\<rparr>, calls))"
    if "enum (ID server) = Inr cs" and "\<not> 80 < ecoScore []" for cs
    using find zid that by (simp add: scaleDown_def)
  have calls: "\<exists>n. snd (snd (scaleDown enum p c ecoScore now a server))
                      = take n (map (\<lambda>k. (CID k, ID server, [])) cs)"
    if "enum (ID server) = Inr cs" and "\<not> 80 < ecoScore []" for cs
  proof -
    obtain n where n: "snd (migrateAll p (ID server) [] cs)
                         = take n (map (\<lambda>k. (CID k, ID server, [])) cs)"
      using migrateAll_prefix by blast
    have "snd (snd (scaleDown enum p c ecoScore now a server))
            = snd (migrateAll p (ID server) [] cs)"
      unfolding down [OF that]
      by (cases "migrateAll p (ID server) [] cs") (simp split: option.splits)
    with n show ?thesis by auto
  qed
  show ?thesis
    using find zid up down calls by blast
qed

theorem no_positive_score_yields_zero_server_witness:
  "findEnergyEfficientServer (providerOf [serverOf ''s1'' ''eu'', serverOf ''s2'' ''eu''])
       (collectorOf 60 10 Map.empty) CalculateEcoScore = Inr zeroServer
   \<and> scaleUp oneContainer (providerOf [serverOf ''s1'' ''eu'', serverOf ''s2'' ''eu''])
       (collectorOf 60 10 Map.empty) CalculateEcoScore 1000 (autoscalerOf 3 4)
       (serverOf ''s1'' ''eu'')
     = (None, (autoscalerOf 3 4)\<lparr>lastScaleUp := 1000\<rparr>, [(''c1'', ''s1'', [])])
   \<and> scaleDown oneContainer (providerOf [serverOf ''s1'' ''eu'', serverOf ''s2'' ''eu''])
       (collectorOf 60 10 Map.empty) CalculateEcoScore 1000 (autoscalerOf 3 4)
       (serverOf ''s1'' ''eu'')
     = (None, (autoscalerOf 3 4)\<lparr>lastScaleDown := 1000\<rparr>, [(''c1'', ''s1'', [])])"
proof -
  let ?fleet = "[serverOf ''s1'' ''eu'', serverOf ''s2'' ''eu'']"
  let ?p = "providerOf ?fleet"
  let ?c = "collectorOf 60 10 Map.empty"
  let ?s = "serverOf ''s1'' ''eu''"
  have h1: "GetInstances ?p = Inr ?fleet"
    by (simp add: providerOf_def)
  have h2: "\<forall>s \<in> set ?fleet. \<forall>ms. GetMetrics ?c (ID s) = Inr ms \<longrightarrow> CalculateEcoScore ms \<le> 0"
    by (simp add: GetMetrics_def collectorOf_def)
  have gate: "\<not> 80 < CalculateEcoScore []"
    by (simp add: CalculateEcoScore_def calculateEfficiencyScore_def)
  have enu: "oneContainer (ID ?s) = Inr [containerOf ''c1'' ''s1'' 200]"
    by (simp add: oneContainer_def serverOf_def)
  have mig: "migrateAll ?p (ID ?s) [] [containerOf ''c1'' ''s1'' 200]
               = (None, [(''c1'', ''s1'', [])])"
    by (simp add: providerOf_def containerOf_def serverOf_def)
  note t = no_positive_score_yields_zero_server [OF h1 h2, where enum = oneContainer
      and server = ?s and now = 1000 and a = "autoscalerOf 3 4"]
  have f: "findEnergyEfficientServer ?p ?c CalculateEcoScore = Inr zeroServer"
    using t by blast
  have u: "scaleUp oneContainer ?p ?c CalculateEcoScore 1000 (autoscalerOf 3 4) ?s
             = (None, (autoscalerOf 3 4)\<lparr>lastScaleUp := 1000\<rparr>,
                map (\<lambda>k. (CID k, ID ?s, [])) [containerOf ''c1'' ''s1'' 200])"
    using t enu by blast
  have d: "scaleDown oneContainer ?p ?c CalculateEcoScore 1000 (autoscalerOf 3 4) ?s
             = (case migrateAll ?p (ID ?s) [] [containerOf ''c1'' ''s1'' 200] of
                  (Some err, calls) \<Rightarrow> (Some err, autoscalerOf 3 4, calls)
                | (None, calls) \<Rightarrow> (None, (autoscalerOf 3 4)\<lparr>lastScaleDown := 1000\<rparr>, calls))"
    using t enu gate by blast
  have u': "scaleUp oneContainer ?p ?c CalculateEcoScore 1000 (autoscalerOf 3 4) ?s
             = (None, (autoscalerOf 3 4)\<lparr>lastScaleUp := 1000\<rparr>, [(''c1'', ''s1'', [])])"
    unfolding u by (simp add: containerOf_def serverOf_def)
  have d': "scaleDown oneContainer ?p ?c CalculateEcoScore 1000 (autoscalerOf 3 4) ?s
             = (None, (autoscalerOf 3 4)\<lparr>lastScaleDown := 1000\<rparr>, [(''c1'', ''s1'', [])])"
    unfolding d mig by simp
  show ?thesis
    using f u' d' by simp
qed

lemma CalculateEcoScore_empty: "CalculateEcoScore [] = 0"
  by (simp add: CalculateEcoScore_def calculateEfficiencyScore_def)

lemma CalculateEcoScore_single:
  "CalculateEcoScore [sample sid ts cpu watts co2]
     = (max 0 (1 - watts / 1000) * 0.4 + (1 - \<bar>0.7 - cpu / 100\<bar>) * 0.3
        + max 0 (1 - co2) * 0.3) * 100"
  by (simp add: CalculateEcoScore_def calculateEfficiencyScore_def calculatePowerScore_def
      calculateMean_def calculateUtilizationScore_def calculateCarbonScore_def sample_def)

text \<open>
  \<^bold>\<open>C2\<close>.  The gate of \<^verbatim>\<open>scaleDown\<close> is computed from an empty slice, not from the samples
  of the server under consideration.  Server \<open>s1\<close> below idles at 10 percent CPU, so its
  latest sample meets the scale-down condition; over its own retained samples its
  eco-score is 82, above 80.  The pass does not leave it in place: it selects \<open>s2\<close>,
  requests the relocation of the container of \<open>s1\<close> and sets \<^verbatim>\<open>lastScaleDown\<close>.
\<close>

theorem scaleDown_ignores_own_score:
  "shouldScaleDown 1000000000000 (autoscalerOf 0 0) (sample ''s1'' 990 10 0 0)
   \<and> GetMetrics (collectorOf 604800000000000 1000
          [''s1'' \<mapsto> seriesOf [sample ''s1'' 990 10 0 0],
           ''s2'' \<mapsto> seriesOf [sample ''s2'' 990 70 0 0]]) ''s1''
       = Inr [sample ''s1'' 990 10 0 0]
   \<and> CalculateEcoScore [sample ''s1'' 990 10 0 0] = 82
   \<and> scaleDown oneContainer (providerOf [serverOf ''s1'' ''eu'', serverOf ''s2'' ''eu''])
        (collectorOf 604800000000000 1000
          [''s1'' \<mapsto> seriesOf [sample ''s1'' 990 10 0 0],
           ''s2'' \<mapsto> seriesOf [sample ''s2'' 990 70 0 0]])
        CalculateEcoScore 1000000000000 (autoscalerOf 0 0) (serverOf ''s1'' ''eu'')
       = (None, (autoscalerOf 0 0)\<lparr>lastScaleDown := 1000000000000\<rparr>, [(''c1'', ''s1'', ''s2'')])"
proof -
  have trigger: "shouldScaleDown 1000000000000 (autoscalerOf 0 0) (sample ''s1'' 990 10 0 0)"
    by (simp add: shouldScaleDown_def autoscalerOf_def sample_def)
  have own: "CalculateEcoScore [sample ''s1'' 990 10 0 0] = 82"
    by (simp add: CalculateEcoScore_single)
  have pass: "scaleDown oneContainer (providerOf [serverOf ''s1'' ''eu'', serverOf ''s2'' ''eu''])
        (collectorOf 604800000000000 1000
          [''s1'' \<mapsto> seriesOf [sample ''s1'' 990 10 0 0],
           ''s2'' \<mapsto> seriesOf [sample ''s2'' 990 70 0 0]])
        CalculateEcoScore 1000000000000 (autoscalerOf 0 0) (serverOf ''s1'' ''eu'')
       = (None, (autoscalerOf 0 0)\<lparr>lastScaleDown := 1000000000000\<rparr>, [(''c1'', ''s1'', ''s2'')])"
    by (simp add: GetMetrics_def collectorOf_def seriesOf_def
        CalculateEcoScore_single CalculateEcoScore_empty scaleDown_def
        findEnergyEfficientServer_def providerOf_def serverOf_def oneContainer_def
        containerOf_def zeroServer_def)
  show ?thesis
    using trigger own pass by (simp add: GetMetrics_def collectorOf_def seriesOf_def)
qed

text \<open>
  \<^bold>\<open>C5\<close>.  \<^verbatim>\<open>findEnergyEfficientServer\<close> is not told which server is being evacuated and
  ranks the whole fleet.  Server \<open>s1\<close> below runs at 90 percent CPU, which triggers a
  scale-up, and has the best eco-score of the fleet (94 against 82): it is chosen as
  the target of its own evacuation, and the relocation requested has \<open>s1\<close> as source and
  as target.
\<close>

theorem scaleUp_targets_source:
  "shouldScaleUp 1000000000000 (autoscalerOf 0 0) (sample ''s1'' 990 90 0 0)
   \<and> CalculateEcoScore [sample ''s1'' 990 90 0 0] = 94
   \<and> CalculateEcoScore [sample ''s2'' 990 10 0 0] = 82
   \<and> findEnergyEfficientServer (providerOf [serverOf ''s1'' ''eu'', serverOf ''s2'' ''eu''])
        (collectorOf 604800000000000 1000
          [''s1'' \<mapsto> seriesOf [sample ''s1'' 990 90 0 0],
           ''s2'' \<mapsto> seriesOf [sample ''s2'' 990 10 0 0]])
        CalculateEcoScore
       = Inr (serverOf ''s1'' ''eu'')
   \<and> scaleUp oneContainer (providerOf [serverOf ''s1'' ''eu'', serverOf ''s2'' ''eu''])
        (collectorOf 604800000000000 1000
          [''s1'' \<mapsto> seriesOf [sample ''s1'' 990 90 0 0],
           ''s2'' \<mapsto> seriesOf [sample ''s2'' 990 10 0 0]])
        CalculateEcoScore 1000000000000 (autoscalerOf 0 0) (serverOf ''s1'' ''eu'')
       = (None, (autoscalerOf 0 0)\<lparr>lastScaleUp := 1000000000000\<rparr>, [(''c1'', ''s1'', ''s1'')])"
proof -
  have trigger: "shouldScaleUp 1000000000000 (autoscalerOf 0 0) (sample ''s1'' 990 90 0 0)"
    by (simp add: shouldScaleUp_def autoscalerOf_def sample_def)
  have s1: "CalculateEcoScore [sample ''s1'' 990 90 0 0] = 94"
    by (simp add: CalculateEcoScore_single)
  have s2: "CalculateEcoScore [sample ''s2'' 990 10 0 0] = 82"
    by (simp add: CalculateEcoScore_single)
  have target: "findEnergyEfficientServer
        (providerOf [serverOf ''s1'' ''eu'', serverOf ''s2'' ''eu''])
        (collectorOf 604800000000000 1000
          [''s1'' \<mapsto> seriesOf [sample ''s1'' 990 90 0 0],
           ''s2'' \<mapsto> seriesOf [sample ''s2'' 990 10 0 0]])
        CalculateEcoScore
       = Inr (serverOf ''s1'' ''eu'')"
    by (simp add: GetMetrics_def collectorOf_def seriesOf_def s1 s2
        findEnergyEfficientServer_def providerOf_def serverOf_def zeroServer_def)
  have pass: "scaleUp oneContainer (providerOf [serverOf ''s1'' ''eu'', serverOf ''s2'' ''eu''])
        (collectorOf 604800000000000 1000
          [''s1'' \<mapsto> seriesOf [sample ''s1'' 990 90 0 0],
           ''s2'' \<mapsto> seriesOf [sample ''s2'' 990 10 0 0]])
        CalculateEcoScore 1000000000000 (autoscalerOf 0 0) (serverOf ''s1'' ''eu'')
       = (None, (autoscalerOf 0 0)\<lparr>lastScaleUp := 1000000000000\<rparr>, [(''c1'', ''s1'', ''s1'')])"
    unfolding scaleUp_def target
    by (simp add: providerOf_def serverOf_def oneContainer_def containerOf_def)
  show ?thesis
    using trigger s1 s2 target pass by simp
qed

subsection \<open>Migration planner\<close>

lemma estimatePowerSaving_formula:
  assumes "getServerEcoScore c ecoScore (ID sourceServer) \<noteq> 0"
  shows "estimatePowerSaving c ecoScore container sourceServer targetServer
           = Fin (CPowerUsage container
                  * (1 - getServerEcoScore c ecoScore (ID targetServer)
                         / getServerEcoScore c ecoScore (ID sourceServer)))"
  using assms by (simp add: estimatePowerSaving_def Let_def algebra_simps)

text \<open>
  \<^bold>\<open>C3\<close>.  \<^verbatim>\<open>estimatePowerSaving\<close> divides by the source server's eco-score without
  looking at it.  Server \<open>s1\<close> below has no retained samples, so \<^verbatim>\<open>getServerEcoScore\<close>
  gives it the score 0; the target \<open>s2\<close> scores 100.  For a container drawing 200 W the
  quotient is \<open>+Inf\<close> and the estimate returned is \<open>-Inf\<close>.
\<close>

theorem estimatePowerSaving_zero_source_score:
  "getServerEcoScore
       (collectorOf 604800000000000 1000 [''s2'' \<mapsto> seriesOf [sample ''s2'' 990 70 0 0]])
       CalculateEcoScore (ID (serverOf ''s1'' ''eu'')) = 0
   \<and> getServerEcoScore
       (collectorOf 604800000000000 1000 [''s2'' \<mapsto> seriesOf [sample ''s2'' 990 70 0 0]])
       CalculateEcoScore (ID (serverOf ''s2'' ''eu'')) = 100
   \<and> estimatePowerSaving
       (collectorOf 604800000000000 1000 [''s2'' \<mapsto> seriesOf [sample ''s2'' 990 70 0 0]])
       CalculateEcoScore (containerOf ''c1'' ''s1'' 200) (serverOf ''s1'' ''eu'')
       (serverOf ''s2'' ''eu'') = NInf"
proof -
  let ?c = "collectorOf 604800000000000 1000 [''s2'' \<mapsto> seriesOf [sample ''s2'' 990 70 0 0]]"
  have src: "getServerEcoScore ?c CalculateEcoScore (ID (serverOf ''s1'' ''eu'')) = 0"
    by (simp add: getServerEcoScore_def GetMetrics_def collectorOf_def serverOf_def)
  have tgt: "getServerEcoScore ?c CalculateEcoScore (ID (serverOf ''s2'' ''eu'')) = 100"
    by (simp add: getServerEcoScore_def GetMetrics_def collectorOf_def serverOf_def seriesOf_def
        CalculateEcoScore_single)
  have est: "estimatePowerSaving ?c CalculateEcoScore (containerOf ''c1'' ''s1'' 200)
               (serverOf ''s1'' ''eu'') (serverOf ''s2'' ''eu'') = NInf"
    unfolding estimatePowerSaving_def src tgt by (simp add: containerOf_def)
  show ?thesis
    using src tgt est by simp
qed

lemma pow2_powr: "pow2 e = 2 powr (of_int e)"
proof (cases "0 \<le> e")
  case True
  then have "(2::real) powr (of_int e) = 2 powr (real (nat e))" by simp
  also have "\<dots> = 2 ^ nat e" by (simp add: powr_realpow)
  finally show ?thesis using True by (simp add: pow2_def)
next
  case False
  then have "(2::real) powr (of_int e) = 2 powr (- real (nat (- e)))" by simp
  also have "\<dots> = 1 / 2 powr (real (nat (- e)))" by (simp add: powr_minus divide_inverse)
  also have "\<dots> = 1 / 2 ^ nat (- e)" by (simp add: powr_realpow)
  finally show ?thesis using False by (simp add: pow2_def)
qed

lemma pow2_mono: "e \<le> e' \<Longrightarrow> pow2 e \<le> pow2 e'"
  by (simp add: pow2_powr)

lemma find_upto_first:
  assumes "lo \<le> e" and "e \<le> hi" and "P e" and "\<forall>k. lo \<le> k \<and> k < e \<longrightarrow> \<not> P k"
  shows "List.find P [lo .. hi] = Some e"
proof -
  let ?i = "nat (e - lo)"
  have len: "?i < length [lo .. hi]"
    using assms(1,2) by simp
  have at: "[lo .. hi] ! ?i = e"
    using assms(1,2) by simp
  have before: "\<not> P ([lo .. hi] ! j)" if "j < ?i" for j
  proof -
    have "[lo .. hi] ! j = lo + int j"
      using that assms(1,2) by simp
    moreover have "lo \<le> lo + int j \<and> lo + int j < e"
      using that by linarith
    ultimately show ?thesis
      using assms(4) by simp
  qed
  have "\<exists>i<length [lo .. hi]. P ([lo .. hi] ! i) \<and> e = [lo .. hi] ! i
          \<and> (\<forall>j<i. \<not> P ([lo .. hi] ! j))"
    using len at assms(3) before by (intro exI [of _ ?i]) simp
  then show ?thesis
    unfolding find_Some_iff by simp
qed

lemma ulpExp_eq:
  assumes "- 1074 \<le> e" and "e \<le> 971" and "\<bar>x\<bar> < pow2 (e + 53)"
    and "e = - 1074 \<or> pow2 (e + 52) \<le> \<bar>x\<bar>"
  shows "ulpExp x = Some e"
proof -
  have before: "\<not> \<bar>x\<bar> < pow2 (k + 53)" if "- 1074 \<le> k \<and> k < e" for k
  proof -
    have "pow2 (k + 53) \<le> pow2 (e + 52)"
      using that by (intro pow2_mono) simp
    moreover have "e \<noteq> - 1074"
      using that by auto
    ultimately show ?thesis
      using assms(4) by auto
  qed
  have "List.find (\<lambda>e. \<bar>x\<bar> < pow2 (e + 53)) [- 1074 .. 971] = Some e"
    using assms(1,2,3) before
    by (intro find_upto_first [where P = "\<lambda>e. \<bar>x\<bar> < pow2 (e + 53)"]) blast+
  then show ?thesis
    unfolding ulpExp_def .
qed

lemma round64_eval:
  assumes "- 1074 \<le> e" and "e \<le> 971" and "\<bar>x\<bar> < pow2 (e + 53)"
    and "e = - 1074 \<or> pow2 (e + 52) \<le> \<bar>x\<bar>"
    and "\<bar>of_int (roundEven (x / pow2 e)) * pow2 e\<bar> < pow2 1024"
  shows "round64 x = Fin (of_int (roundEven (x / pow2 e)) * pow2 e)"
  using assms(5) by (simp add: round64_def ulpExp_eq [OF assms(1-4)] Let_def)

lemma wrap64_id:
  assumes "- 9223372036854775808 \<le> v" and "v < 9223372036854775808"
  shows "wrap64 v = v"
proof -
  have "(v + 9223372036854775808) mod 18446744073709551616 = v + 9223372036854775808"
    using assms by (intro mod_pos_pos_trivial) simp_all
  then show ?thesis by (simp add: wrap64_def)
qed

lemma priority_steps:
  "(let priority = q;
        priority = (if long then wrap64 (priority - 2) else priority);
        priority = (if priority < 1 then 1 else priority);
        priority = (if priority > 10 then 10 else priority)
    in priority)
   = max 1 (min 10 (if long then wrap64 (q - 2) else q))"
  by (simp add: Let_def)

lemma roundF_Fin: "roundF (Fin x) = round64 x"
  by (simp add: roundF_def)

lemma scaled_ratio_120:
  "roundF (fmul (roundF (fdiv (Fin 119.99999999999999) (Fin (MinPowerSaving plannerConfig))))
             (Fin 10)) = Fin 12"
proof -
  have q: "fdiv (Fin 119.99999999999999) (Fin (MinPowerSaving plannerConfig))
             = Fin (119.99999999999999 / 100)"
    by (simp add: plannerConfig_def)
  have d: "round64 (119.99999999999999 / 100) = Fin (5404319552844595 / 4503599627370496)"
    using round64_eval [of "- 52" "119.99999999999999 / 100"]
    by (simp add: pow2_def roundEven_def Let_def)
  have p: "fmul (Fin (5404319552844595 / 4503599627370496)) (Fin 10)
             = Fin (5404319552844595 / 4503599627370496 * 10)"
    by simp
  have m: "round64 (5404319552844595 / 4503599627370496 * 10) = Fin 12"
    using round64_eval [of "- 49" "5404319552844595 / 4503599627370496 * 10"]
    by (simp add: pow2_def roundEven_def Let_def)
  show ?thesis
    by (simp only: q roundF_Fin d p m)
qed

lemma scaled_ratio_118:
  "roundF (fmul (roundF (fdiv (Fin 118) (Fin (MinPowerSaving plannerConfig)))) (Fin 10))
     = Fin (6642809450371481 / 562949953421312)"
proof -
  have q: "fdiv (Fin 118) (Fin (MinPowerSaving plannerConfig)) = Fin (118 / 100)"
    by (simp add: plannerConfig_def)
  have d: "round64 (118 / 100) = Fin (5314247560297185 / 4503599627370496)"
    using round64_eval [of "- 52" "118 / 100"]
    by (simp add: pow2_def roundEven_def Let_def)
  have p: "fmul (Fin (5314247560297185 / 4503599627370496)) (Fin 10)
             = Fin (5314247560297185 / 4503599627370496 * 10)"
    by simp
  have m: "round64 (5314247560297185 / 4503599627370496 * 10)
             = Fin (6642809450371481 / 562949953421312)"
    using round64_eval [of "- 49" "5314247560297185 / 4503599627370496 * 10"]
    by (simp add: pow2_def roundEven_def Let_def)
  show ?thesis
    by (simp only: q roundF_Fin d p m)
qed

lemma scaled_ratio_tie:
  "roundF (fmul (roundF (fdiv (Fin 0.7) (Fin (MinPowerSaving (plannerConfig\<lparr>MinPowerSaving := 1\<rparr>)))))
             (Fin 10)) = Fin 7"
proof -
  have q: "fdiv (Fin 0.7) (Fin (MinPowerSaving (plannerConfig\<lparr>MinPowerSaving := 1\<rparr>)))
             = Fin (0.7 / 1)"
    by simp
  have d: "round64 (0.7 / 1) = Fin (6305039478318694 / 9007199254740992)"
    using round64_eval [of "- 53" "0.7 / 1"]
    by (simp add: pow2_def roundEven_def Let_def)
  have p: "fmul (Fin (6305039478318694 / 9007199254740992)) (Fin 10)
             = Fin (6305039478318694 / 9007199254740992 * 10)"
    by simp
  have m: "round64 (6305039478318694 / 9007199254740992 * 10) = Fin 7"
    using round64_eval [of "- 50" "6305039478318694 / 9007199254740992 * 10"]
    by (simp add: pow2_def roundEven_def Let_def)
  show ?thesis
    by (simp only: q roundF_Fin d p m)
qed

lemma half_MaxDowntime: "MaxDowntime plannerConfig sdiv 2 = 60 * Second"
  by (simp add: plannerConfig_def Minute_def Second_def signed_divide_int_def)

text \<open>
  \<^bold>\<open>C4\<close> (as amended).  The priority is always an integer between 1 and 10.  Let \<open>q\<close> be
  the \<^verbatim>\<open>float64\<close> value of \<open>(powerSaving / MinPowerSaving) \<times> 10\<close>, the quotient and the
  product each rounded to the nearest \<^verbatim>\<open>float64\<close>.  When \<open>q\<close> is finite and its integer
  part fits a 64-bit integer, the priority is that integer part (the fraction of \<open>q\<close>
  is discarded, not rounded), reduced by 2 in wrap-around 64-bit arithmetic when the
  downtime exceeds \<^verbatim>\<open>MaxDowntime/2\<close> (an integer quotient), then clamped to \<open>[1, 10]\<close>.
  The reduction is the plain difference unless the integer part is one of the two
  smallest 64-bit integers.
\<close>

theorem calculatePriority_truncates_then_clamps:
  "1 \<le> calculatePriority cfg impl powerSaving downtime
   \<and> calculatePriority cfg impl powerSaving downtime \<le> 10
   \<and> (\<forall>q. roundF (fmul (roundF (fdiv powerSaving (Fin (MinPowerSaving cfg)))) (Fin 10)) = Fin q
          \<and> - 9223372036854775808 \<le> truncR q \<and> truncR q < 9223372036854775808 \<longrightarrow>
        calculatePriority cfg impl powerSaving downtime
          = max 1 (min 10 (if downtime > MaxDowntime cfg sdiv 2 then wrap64 (truncR q - 2)
                           else truncR q))
        \<and> (- 9223372036854775806 \<le> truncR q \<longrightarrow>
             calculatePriority cfg impl powerSaving downtime
               = max 1 (min 10 (truncR q
                                - (if downtime > MaxDowntime cfg sdiv 2 then 2 else 0)))))"
proof -
  have range: "1 \<le> calculatePriority cfg impl powerSaving downtime
               \<and> calculatePriority cfg impl powerSaving downtime \<le> 10"
    unfolding calculatePriority_def by (simp add: Let_def)
  have formula: "calculatePriority cfg impl powerSaving downtime
          = max 1 (min 10 (if downtime > MaxDowntime cfg sdiv 2 then wrap64 (truncR q - 2)
                           else truncR q))"
    if q: "roundF (fmul (roundF (fdiv powerSaving (Fin (MinPowerSaving cfg)))) (Fin 10)) = Fin q"
      and lo: "- 9223372036854775808 \<le> truncR q"
      and hi: "truncR q < 9223372036854775808" for q
  proof -
    have conv: "intOfFloat impl
        (roundF (fmul (roundF (fdiv powerSaving (Fin (MinPowerSaving cfg)))) (Fin 10)))
        = truncR q"
      unfolding q using lo hi by (simp add: intOfFloat_def)
    show ?thesis
      unfolding calculatePriority_def conv by (rule priority_steps)
  qed
  have plain: "max 1 (min 10 (if downtime > MaxDowntime cfg sdiv 2 then wrap64 (truncR q - 2)
                              else truncR q))
               = max 1 (min 10 (truncR q - (if downtime > MaxDowntime cfg sdiv 2 then 2 else 0)))"
    if lo: "- 9223372036854775806 \<le> truncR q" and hi: "truncR q < 9223372036854775808" for q
  proof -
    have "wrap64 (truncR q - 2) = truncR q - 2"
      using lo hi by (intro wrap64_id) simp_all
    then show ?thesis by simp
  qed
  show ?thesis
    using range formula plain by (simp only: conj_assoc) metis
qed

theorem calculatePriority_truncates_then_clamps_witness:
  "calculatePriority plannerConfig amd64 (Fin 119.99999999999999) (90 * Second) = 10
   \<and> calculatePriority plannerConfig amd64 (Fin 118) (30 * Second) = 10
   \<and> calculatePriority (plannerConfig\<lparr>MinPowerSaving := 1\<rparr>) amd64 (Fin 0.7) (30 * Second) = 7"
proof -
  have t7: "truncR 7 = 7"
    by (simp add: truncR_def)
  have r7: "- 9223372036854775808 \<le> truncR 7" "truncR 7 < 9223372036854775808"
    "- 9223372036854775806 \<le> truncR 7"
    unfolding t7 by simp_all
  have h: "MaxDowntime (plannerConfig\<lparr>MinPowerSaving := 1\<rparr>) sdiv 2 = 60 * Second"
    by (simp add: plannerConfig_def Minute_def Second_def signed_divide_int_def)
  have c: "calculatePriority (plannerConfig\<lparr>MinPowerSaving := 1\<rparr>) amd64 (Fin 0.7) (30 * Second)
             = max 1 (min 10 (truncR 7
                 - (if 30 * Second > MaxDowntime (plannerConfig\<lparr>MinPowerSaving := 1\<rparr>) sdiv 2
                    then 2 else 0)))"
    using calculatePriority_truncates_then_clamps
      [of "plannerConfig\<lparr>MinPowerSaving := 1\<rparr>" amd64 "Fin 0.7" "30 * Second"]
      scaled_ratio_tie r7 by blast
  have t12: "truncR 12 = 12"
    by (simp add: truncR_def)
  have t11: "truncR (6642809450371481 / 562949953421312) = 11"
    by (simp add: truncR_def)
  have r12: "- 9223372036854775808 \<le> truncR 12" "truncR 12 < 9223372036854775808"
    "- 9223372036854775806 \<le> truncR 12"
    unfolding t12 by simp_all
  have r11: "- 9223372036854775808 \<le> truncR (6642809450371481 / 562949953421312)"
    "truncR (6642809450371481 / 562949953421312) < 9223372036854775808"
    "- 9223372036854775806 \<le> truncR (6642809450371481 / 562949953421312)"
    unfolding t11 by simp_all
  have a: "calculatePriority plannerConfig amd64 (Fin 119.99999999999999) (90 * Second)
             = max 1 (min 10 (truncR 12
                 - (if 90 * Second > MaxDowntime plannerConfig sdiv 2 then 2 else 0)))"
    using calculatePriority_truncates_then_clamps
      [of plannerConfig amd64 "Fin 119.99999999999999" "90 * Second"]
      scaled_ratio_120 r12 by blast
  have b: "calculatePriority plannerConfig amd64 (Fin 118) (30 * Second)
             = max 1 (min 10 (truncR (6642809450371481 / 562949953421312)
                 - (if 30 * Second > MaxDowntime plannerConfig sdiv 2 then 2 else 0)))"
    using calculatePriority_truncates_then_clamps
      [of plannerConfig amd64 "Fin 118" "30 * Second"]
      scaled_ratio_118 r11 by blast
  show ?thesis
    unfolding a b c t12 t11 t7 h half_MaxDowntime by (simp add: Second_def)
qed

text \<open>
  The claim as written rounds.  With \<^verbatim>\<open>MinPowerSaving = 100\<close>, \<^verbatim>\<open>MaxDowntime = 2 min\<close>, a
  saving of 118 W and a downtime of 90 s the scaled ratio is the \<^verbatim>\<open>float64\<close> next below
  11.8: rounded it is 12, and 10 after the reduction; the code discards the fraction,
  takes 11, and returns 9.
\<close>

theorem calculatePriority_rounding_counterexample:
  "calculatePriority plannerConfig amd64 (Fin 118) (90 * Second) = 9
   \<and> 90 * Second > MaxDowntime plannerConfig sdiv 2
   \<and> roundF (fmul (roundF (fdiv (Fin 118) (Fin (MinPowerSaving plannerConfig)))) (Fin 10))
       = Fin (6642809450371481 / 562949953421312)
   \<and> max 1 (min 10 (round (6642809450371481 / 562949953421312 :: real) - 2)) = (10::int)
   \<and> max 1 (min 10 (round (118 / MinPowerSaving plannerConfig * 10) - 2)) = (10::int)"
proof -
  have conv: "intOfFloat amd64
      (roundF (fmul (roundF (fdiv (Fin 118) (Fin (MinPowerSaving plannerConfig)))) (Fin 10)))
      = 11"
    unfolding scaled_ratio_118 by (simp add: intOfFloat_def truncR_def)
  have w: "wrap64 9 = 9"
    by (simp add: wrap64_def)
  have code: "calculatePriority plannerConfig amd64 (Fin 118) (90 * Second) = 9"
    unfolding calculatePriority_def conv half_MaxDowntime by (simp add: Let_def w Second_def)
  have long: "90 * Second > MaxDowntime plannerConfig sdiv 2"
    unfolding half_MaxDowntime by (simp add: Second_def)
  have spec64: "max 1 (min 10 (round (6642809450371481 / 562949953421312 :: real) - 2)) = (10::int)"
    by (simp add: round_def)
  have spec: "max 1 (min 10 (round (118 / MinPowerSaving plannerConfig * 10) - 2)) = (10::int)"
    by (simp add: plannerConfig_def round_def)
  show ?thesis
    using code long scaled_ratio_118 spec64 spec by blast
qed

lemma migrationWorker_locked:
  assumes "muLocked P"
  shows "migrationWorker p plan P =
           (case MigrateContainer p (ContainerID plan) (SourceServerID plan) (TargetServerID plan) of
              Some err \<Rightarrow> Some P
            | None \<Rightarrow> None)"
  using assms by (simp add: migrationWorker_def Lock_def split: option.splits)

lemma launchWorkers_locked:
  assumes "muLocked P"
  shows "\<exists>calls'. launchWorkers p slots plans waiting P calls = Returned (P, calls')
                 \<or> launchWorkers p slots plans waiting P calls = Stuck (P, calls')"
proof (induction plans arbitrary: waiting calls)
  case Nil
  show ?case by simp
next
  case (Cons plan plans)
  show ?case
  proof (cases "slots \<le> int waiting")
    case True
    then show ?thesis by simp
  next
    case False
    show ?thesis
    proof (cases "MigrateContainer p (ContainerID plan) (SourceServerID plan) (TargetServerID plan)")
      case None
      then have "launchWorkers p slots (plan # plans) waiting P calls
          = launchWorkers p slots plans (Suc waiting) P
              (calls @ [(ContainerID plan, SourceServerID plan, TargetServerID plan)])"
        using False by (simp add: migrationWorker_locked [OF assms])
      then show ?thesis using Cons.IH by simp
    next
      case (Some err)
      then have "launchWorkers p slots (plan # plans) waiting P calls
          = launchWorkers p slots plans waiting P
              (calls @ [(ContainerID plan, SourceServerID plan, TargetServerID plan)])"
        using False by (simp add: migrationWorker_locked [OF assms])
      then show ?thesis using Cons.IH by simp
    qed
  qed
qed

lemma launchWorkers_returned:
  assumes "muLocked P" and "launchWorkers p slots plans waiting P calls = Returned x"
  shows "waiting = 0
         \<and> (\<forall>plan \<in> set plans.
               MigrateContainer p (ContainerID plan) (SourceServerID plan) (TargetServerID plan)
                 \<noteq> None)"
  using assms(2)
proof (induction plans arbitrary: waiting calls)
  case Nil
  then show ?case by (simp split: if_splits)
next
  case (Cons plan plans)
  have room: "\<not> slots \<le> int waiting"
    using Cons.prems by (auto split: if_splits)
  show ?case
  proof (cases "MigrateContainer p (ContainerID plan) (SourceServerID plan) (TargetServerID plan)")
    case None
    then have "launchWorkers p slots plans (Suc waiting) P
              (calls @ [(ContainerID plan, SourceServerID plan, TargetServerID plan)]) = Returned x"
      using Cons.prems room by (simp add: migrationWorker_locked [OF assms(1)])
    then have "Suc waiting = 0" using Cons.IH by blast
    then show ?thesis by simp
  next
    case (Some err)
    then have "launchWorkers p slots plans waiting P
              (calls @ [(ContainerID plan, SourceServerID plan, TargetServerID plan)]) = Returned x"
      using Cons.prems room by (simp add: migrationWorker_locked [OF assms(1)])
    then show ?thesis using Cons.IH Some by auto
  qed
qed

lemma set_insertDesc: "set (insertDesc key x xs) = insert x (set xs)"
  by (induction xs) auto

lemma set_sortDesc: "set (sortDesc key xs) = set xs"
  unfolding sortDesc_def by (induction xs) (simp_all add: set_insertDesc)

text \<open>
  Whatever \<^verbatim>\<open>executeMigrations\<close> comes to, the registry is as it was on entry: no plan
  is ever retired.  It returns only if every relocation it requested failed.
\<close>

lemma executeMigrations_keeps_registry:
  assumes "executeMigrations p order P = Returned (P', calls)
           \<or> executeMigrations p order P = Stuck (P', calls)"
  shows "activePlans P' = activePlans P"
proof (cases "muLocked P")
  case True
  then show ?thesis using assms by (auto simp: executeMigrations_def Lock_def)
next
  case False
  let ?P1 = "P\<lparr>muLocked := True\<rparr>"
  let ?plans = "sortDesc Priority (List.map_filter (activePlans ?P1) order)"
  have locked: "muLocked ?P1" by simp
  obtain calls' where r: "launchWorkers p (ConcurrentMigrations (pconfig ?P1)) ?plans 0 ?P1 []
                             = Returned (?P1, calls')
       \<or> launchWorkers p (ConcurrentMigrations (pconfig ?P1)) ?plans 0 ?P1 [] = Stuck (?P1, calls')"
    using launchWorkers_locked [OF locked] by blast
  show ?thesis
    using assms r False
    by (auto simp: executeMigrations_def Lock_def Unlock_def Let_def split: if_splits)
qed

lemma executeMigrations_returns_only_on_failure:
  assumes "executeMigrations p order P = Returned (P', calls)"
    and "activePlans P cid = Some plan" and "cid \<in> set order"
  shows "MigrateContainer p (ContainerID plan) (SourceServerID plan) (TargetServerID plan) \<noteq> None"
proof -
  have free: "\<not> muLocked P"
    using assms(1) by (auto simp: executeMigrations_def Lock_def split: if_splits)
  let ?P1 = "P\<lparr>muLocked := True\<rparr>"
  let ?plans = "sortDesc Priority (List.map_filter (activePlans ?P1) order)"
  have locked: "muLocked ?P1" by simp
  obtain x where "launchWorkers p (ConcurrentMigrations (pconfig ?P1)) ?plans 0 ?P1 [] = Returned x"
    using assms(1) free
    by (auto simp: executeMigrations_def Lock_def Let_def split: if_splits outcome.splits)
  then have all: "\<forall>plan \<in> set ?plans.
      MigrateContainer p (ContainerID plan) (SourceServerID plan) (TargetServerID plan) \<noteq> None"
    using launchWorkers_returned [OF locked] by blast
  have "plan \<in> set (List.map_filter (activePlans ?P1) order)"
    using assms(2,3) by (force simp: List.map_filter_def)
  then have "plan \<in> set ?plans"
    by (simp add: set_sortDesc)
  with all show ?thesis by blast
qed

text \<open>A planning pass leaves every plan that is in the registry as it is.\<close>

lemma planContainers_keeps:
  assumes "plans cid = Some plan"
  shows "planContainers cfg impl c ecoScore sourceServer servers containers plans cid = Some plan"
  using assms
proof (induction containers arbitrary: plans)
  case Nil
  then show ?case by simp
next
  case (Cons k ks)
  show ?case
  proof (cases "plans (CID k)")
    case (Some existing)
    then show ?thesis using Cons by simp
  next
    case None
    then have ne: "CID k \<noteq> cid" using Cons.prems by auto
    show ?thesis
    proof (cases "findBestMigrationPlan cfg impl c ecoScore k sourceServer servers")
      case None
      then show ?thesis using \<open>plans (CID k) = None\<close> Cons by simp
    next
      case (Some bestPlan)
      have "(plans(CID k \<mapsto> bestPlan)) cid = Some plan"
        using ne Cons.prems by simp
      then show ?thesis
        using Some \<open>plans (CID k) = None\<close> Cons.IH by simp
    qed
  qed
qed

lemma planServers_keeps:
  assumes "plans cid = Some plan"
  shows "planServers enum cfg impl c ecoScore servers sources plans cid = Some plan"
  using assms
proof (induction sources arbitrary: plans)
  case Nil
  then show ?case by simp
next
  case (Cons s ss)
  show ?case
    using Cons.IH Cons.prems planContainers_keeps
    by (simp split: sum.splits)
qed

lemma planMigrations_keeps_existing:
  assumes "activePlans P cid = Some plan"
  shows "activePlans (snd (planMigrations enum p impl c ecoScore P)) cid = Some plan"
  using assms planServers_keeps
  by (simp add: planMigrations_def Let_def split: sum.splits)

text \<open>
  \<^bold>\<open>C6\<close>.  The registry is a map, so a container has at most one plan, and a planning
  pass keeps the plans it finds (\<open>planMigrations_keeps_existing\<close>).  But a successful
  relocation does not retire its plan.  \<^verbatim>\<open>executeMigrations\<close> holds the planner's mutex
  from entry to return, and the goroutine of a successful relocation asks for the same
  mutex before it deletes the plan: it waits for a release that comes only after
  \<^verbatim>\<open>wg.Wait()\<close>, which waits for that goroutine.  With one plan in the registry and a
  provider that carries out the relocation, the call never returns and the plan stays;
  had the mutex been free the goroutine would have emptied the registry.
\<close>

theorem executeMigrations_success_keeps_plan:
  "MigrateContainer (providerOf [serverOf ''s1'' ''eu'', serverOf ''s2'' ''eu''])
       ''c1'' ''s1'' ''s2'' = None
   \<and> executeMigrations (providerOf [serverOf ''s1'' ''eu'', serverOf ''s2'' ''eu'']) [''c1'']
       (plannerOf [''c1'' \<mapsto> planOf ''c1'' ''s1'' ''s2'' 9])
     = Stuck ((plannerOf [''c1'' \<mapsto> planOf ''c1'' ''s1'' ''s2'' 9])\<lparr>muLocked := True\<rparr>,
              [(''c1'', ''s1'', ''s2'')])
   \<and> activePlans ((plannerOf [''c1'' \<mapsto> planOf ''c1'' ''s1'' ''s2'' 9])\<lparr>muLocked := True\<rparr>) ''c1''
     = Some (planOf ''c1'' ''s1'' ''s2'' 9)
   \<and> map_option activePlans
       (migrationWorker (providerOf [serverOf ''s1'' ''eu'', serverOf ''s2'' ''eu''])
          (planOf ''c1'' ''s1'' ''s2'' 9) (plannerOf [''c1'' \<mapsto> planOf ''c1'' ''s1'' ''s2'' 9]))
     = Some Map.empty
   \<and> executeMigrations (refusingProvider [serverOf ''s1'' ''eu'', serverOf ''s2'' ''eu''])
       [''c1''] (plannerOf [''c1'' \<mapsto> planOf ''c1'' ''s1'' ''s2'' 9])
     = Returned (plannerOf [''c1'' \<mapsto> planOf ''c1'' ''s1'' ''s2'' 9], [(''c1'', ''s1'', ''s2'')])"
proof -
  let ?plan = "planOf ''c1'' ''s1'' ''s2'' 9"
  let ?P = "plannerOf [''c1'' \<mapsto> ?plan]"
  let ?p = "providerOf [serverOf ''s1'' ''eu'', serverOf ''s2'' ''eu'']"
  let ?r = "refusingProvider [serverOf ''s1'' ''eu'', serverOf ''s2'' ''eu'']"
  let ?P1 = "?P\<lparr>muLocked := True\<rparr>"
  have lock: "Lock ?P = Some ?P1"
    by (simp add: Lock_def plannerOf_def)
  have snap: "sortDesc Priority (List.map_filter (activePlans ?P1) [''c1'']) = [?plan]"
    by (simp add: sortDesc_def List.map_filter_def plannerOf_def)
  have slots: "ConcurrentMigrations (pconfig ?P1) = 3"
    by (simp add: plannerOf_def plannerConfig_def)
  have ids: "ContainerID ?plan = ''c1''" "SourceServerID ?plan = ''s1''"
    "TargetServerID ?plan = ''s2''"
    by (simp_all add: planOf_def)
  have ok: "MigrateContainer ?p ''c1'' ''s1'' ''s2'' = None"
    by (simp add: providerOf_def)
  have no: "MigrateContainer ?r ''c1'' ''s1'' ''s2'' = Some (Errorf ''migration refused'')"
    by (simp add: refusingProvider_def)
  have held: "Lock ?P1 = None"
    by (simp add: Lock_def)
  have waits: "migrationWorker ?p ?plan ?P1 = None"
    unfolding migrationWorker_def ids ok held by simp
  have ends: "migrationWorker ?r ?plan ?P1 = Some ?P1"
    unfolding migrationWorker_def ids no by simp
  have run: "launchWorkers ?p 3 [?plan] 0 ?P1 [] = Stuck (?P1, [(''c1'', ''s1'', ''s2'')])"
    by (simp add: waits ids)
  have run': "launchWorkers ?r 3 [?plan] 0 ?P1 [] = Returned (?P1, [(''c1'', ''s1'', ''s2'')])"
    by (simp add: ends ids)
  have released: "Unlock ?P1 = ?P"
    by (simp add: Unlock_def plannerOf_def)
  have stuck: "executeMigrations ?p [''c1''] ?P = Stuck (?P1, [(''c1'', ''s1'', ''s2'')])"
    unfolding executeMigrations_def lock option.case Let_def snap slots run by simp
  have kept: "activePlans ?P1 ''c1'' = Some ?plan"
    by (simp add: plannerOf_def)
  have free: "map_option activePlans (migrationWorker ?p ?plan ?P) = Some Map.empty"
    unfolding migrationWorker_def ids ok lock by (simp add: Unlock_def plannerOf_def)
  have refused: "executeMigrations ?r [''c1''] ?P = Returned (?P, [(''c1'', ''s1'', ''s2'')])"
    unfolding executeMigrations_def lock option.case Let_def snap slots run' by (simp add: released)
  show ?thesis
    using ok stuck kept free refused by simp
qed

end
